theory Spec2Isabelle
  imports Complex_Main
begin

section \<open>Errors\<close>

text \<open>
  The engine signals failure by raising: \<^verbatim>\<open>ValueError\<close> (with a message) from the tier
  calculator and from \<^verbatim>\<open>int()\<close> and \<^verbatim>\<open>float()\<close> on a string that is not a number,
  \<^verbatim>\<open>TypeError\<close> from \<^verbatim>\<open>int()\<close> and \<^verbatim>\<open>float()\<close> on a value that is neither a number
  nor a string, \<^verbatim>\<open>KeyError\<close> (with the missing key) from a subscript on a dictionary,
  \<^verbatim>\<open>IndexError\<close> from a subscript on an empty list. Every raise is a value here.
  Python floats are modelled by exact reals: rounding, infinities and NaN are outside the
  model.
\<close>

datatype error = KeyError string | ValueError string | TypeError string | IndexError

fun ebind :: "error + 'a \<Rightarrow> ('a \<Rightarrow> error + 'b) \<Rightarrow> error + 'b" where
  "ebind (Inl e) f = Inl e"
| "ebind (Inr x) f = f x"

section \<open>Tiered pricing (engine/tiers.py)\<close>

record TierDefinition =
  up_to :: "real option"
  price :: real

text \<open>The loop test \<^verbatim>\<open>up_to is None or volume <= up_to\<close>.\<close>

fun tier_matches :: "real \<Rightarrow> TierDefinition \<Rightarrow> bool" where
  "tier_matches volume tier = (case up_to tier of None \<Rightarrow> True | Some u \<Rightarrow> volume \<le> u)"

text \<open>The \<^verbatim>\<open>for tier in tiers\<close> loop of \<^verbatim>\<open>apply_tiers\<close>: \<open>None\<close> when it falls through.\<close>

fun apply_tiers_loop :: "real \<Rightarrow> TierDefinition list \<Rightarrow> real option" where
  "apply_tiers_loop volume [] = None"
| "apply_tiers_loop volume (tier # rest) =
     (if tier_matches volume tier then Some (volume * price tier)
      else apply_tiers_loop volume rest)"

definition apply_tiers :: "real \<Rightarrow> TierDefinition list \<Rightarrow> error + real" where
  "apply_tiers volume tiers =
     (if volume < 0 then Inl (ValueError ''Volume must be >= 0'')
      else if tiers = [] then Inl (ValueError ''Tiers list cannot be empty'')
      else if volume = 0 then Inr 0
      else (case apply_tiers_loop volume tiers of
              Some cost \<Rightarrow> Inr cost
            | None \<Rightarrow> Inr (volume * price (last tiers))))"

text \<open>
  The loop of \<^verbatim>\<open>apply_graduated_tiers\<close>, with its three loop variables
  \<^verbatim>\<open>total_cost\<close>, \<^verbatim>\<open>remaining\<close> and \<^verbatim>\<open>previous_up_to\<close>.
\<close>

fun graduated_loop :: "TierDefinition list \<Rightarrow> real \<Rightarrow> real \<Rightarrow> real \<Rightarrow> real" where
  "graduated_loop [] total_cost remaining previous_up_to = total_cost"
| "graduated_loop (tier # rest) total_cost remaining previous_up_to =
     (case up_to tier of
        None \<Rightarrow> total_cost + remaining * price tier
      | Some u \<Rightarrow>
          (let tier_volume = min remaining (u - previous_up_to);
               total_cost' = (if tier_volume > 0 then total_cost + tier_volume * price tier
                              else total_cost);
               remaining' = (if tier_volume > 0 then remaining - tier_volume else remaining)
           in if remaining' \<le> 0 then total_cost'
              else graduated_loop rest total_cost' remaining' u))"

definition apply_graduated_tiers :: "real \<Rightarrow> TierDefinition list \<Rightarrow> error + real" where
  "apply_graduated_tiers volume tiers =
     (if volume < 0 then Inl (ValueError ''Volume must be >= 0'')
      else if tiers = [] then Inl (ValueError ''Tiers list cannot be empty'')
      else if volume = 0 then Inr 0
      else Inr (graduated_loop tiers 0 volume 0))"

fun effective_rate_loop :: "real \<Rightarrow> TierDefinition list \<Rightarrow> real option" where
  "effective_rate_loop volume [] = None"
| "effective_rate_loop volume (tier # rest) =
     (if tier_matches volume tier then Some (price tier)
      else effective_rate_loop volume rest)"

definition get_effective_rate :: "real \<Rightarrow> TierDefinition list \<Rightarrow> error + real" where
  "get_effective_rate volume tiers =
     (if volume \<le> 0 then (case tiers of [] \<Rightarrow> Inr 0 | tier # _ \<Rightarrow> Inr (price tier))
      else (case effective_rate_loop volume tiers of
              Some p \<Rightarrow> Inr p
            | None \<Rightarrow> (if tiers = [] then Inl IndexError else Inr (price (last tiers)))))"

text \<open>The \<^verbatim>\<open>enumerate\<close> loop of \<^verbatim>\<open>find_tier_index\<close>, \<open>i\<close> the running index.\<close>

fun find_tier_index_loop :: "real \<Rightarrow> int \<Rightarrow> TierDefinition list \<Rightarrow> int option" where
  "find_tier_index_loop volume i [] = None"
| "find_tier_index_loop volume i (tier # rest) =
     (if tier_matches volume tier then Some i
      else find_tier_index_loop volume (i + 1) rest)"

definition find_tier_index :: "real \<Rightarrow> TierDefinition list \<Rightarrow> int" where
  "find_tier_index volume tiers =
     (case find_tier_index_loop volume 0 tiers of
        Some i \<Rightarrow> i
      | None \<Rightarrow> int (length tiers) - 1)"

section \<open>Dictionaries\<close>

text \<open>
  The plan and the scenario are nested dictionaries. A dictionary with known keys is a
  record whose fields are options (\<open>None\<close>: the key is absent); \<^verbatim>\<open>d.get(key, default)\<close>
  is \<open>dict_get\<close> and \<^verbatim>\<open>d[key]\<close>, which raises \<^verbatim>\<open>KeyError\<close>, is \<open>require\<close>.
\<close>

definition dict_get :: "'a option \<Rightarrow> 'a \<Rightarrow> 'a" where
  "dict_get entry dflt = (case entry of None \<Rightarrow> dflt | Some v \<Rightarrow> v)"

definition require :: "string \<Rightarrow> 'a option \<Rightarrow> error + 'a" where
  "require key entry = (case entry of None \<Rightarrow> Inl (KeyError key) | Some v \<Rightarrow> Inr v)"

section \<open>Pricing plan\<close>

text \<open>
  The keys the engine reads. \<^verbatim>\<open>key\<close>, \<^verbatim>\<open>amount\<close> and \<^verbatim>\<open>price\<close> are subscripted and taken
  as present, as in the dataclasses of engine/types.py; everything read with
  \<^verbatim>\<open>get\<close> is optional. The nested \<^verbatim>\<open>variable_monthly\<close> and \<^verbatim>\<open>physical_cards\<close> sections
  are flattened: an absent section reads as the empty tier or method list, which is
  what the chained \<^verbatim>\<open>get(..., {})\<close> calls return.
\<close>

record FixedMonthlyFee =
  fee_key :: string
  fee_amount :: real
  fee_mandatory :: "bool option"
  fee_enabled_by_default :: "bool option"

record OptionalFeature =
  feature_key :: "string option"
  feature_enabled_by_default :: "bool option"
  feature_setup :: "real option"
  feature_monthly :: "real option"

record EventFee =
  event_key :: string
  event_amount :: real
  event_mandatory :: "bool option"
  event_enabled_by_default :: "bool option"

text \<open>
  \<open>max_batch\<close> distinguishes an absent key (\<open>None\<close>, the code then reads \<^verbatim>\<open>max\<close>) from a
  key holding null (\<open>Some None\<close>, no upper bound).
\<close>

record ManufacturingTier =
  min_batch :: "real option"
  min_key :: "real option"
  max_batch :: "real option option"
  max_key :: "real option"
  mfg_price :: real

record DeliveryMethod =
  method_key :: string
  method_price :: real

record PricingPlan =
  plan_id :: "string option"
  fixed_monthly :: "FixedMonthlyFee list"
  optional_features :: "(string \<times> OptionalFeature) list"
  event_fees :: "EventFee list"
  active_cards_tiers :: "TierDefinition list"
  authorizations_eea_tiers :: "TierDefinition list"
  authorizations_non_eea_tiers :: "TierDefinition list"
  three_ds_tiers :: "TierDefinition list"
  manufacturing_tiers :: "ManufacturingTier list"
  delivery_methods :: "DeliveryMethod list"
  default_method :: "string option"

section \<open>Scenario\<close>

record AdoptionConfig =
  start_active_cards :: "real option"
  monthly_net_adds :: "real option"
  churn_rate :: "real option"

record IssuanceConfig =
  physical_share_issued :: "real option"
  issued_equals_net_adds :: "bool option"

record UsageConfig =
  spend_per_active_card_month :: "real option"
  in_app_share :: "real option"
  avg_ticket :: "real option"
  ecom_share :: "real option"
  three_ds_attempt_rate :: "real option"
  eea_share :: "real option"
  auth_multiplier :: "real option"

record B2BTarget =
  target_type :: "string option"
  target_months :: "int option"
  target_amount :: "real option"

record B2BConfig =
  companies :: "real option"
  platform_fee_company_month :: "real option"
  employee_fee_month :: "real option"
  mode :: "string option"
  target :: "B2BTarget option"

record CommercialConfig =
  partner_fee_pct :: "real option"
  interchange_pct :: "real option"
  b2b :: "B2BConfig option"

text \<open>
  The toggles: boolean flags by key, the nested \<^verbatim>\<open>event_fees\<close> flags (an absent section
  reads as the empty dictionary) and the delivery method.
\<close>

record Toggles =
  flags :: "string \<rightharpoonup> bool"
  event_fee_flags :: "string \<rightharpoonup> bool"
  delivery_method :: "string option"

record OpsAssumptions =
  kyc_attempts_per_new_user :: "real option"
  doc_confirm_rate_per_new_user :: "real option"
  dispute_rate_per_tx :: "real option"
  sms_per_active_user_month :: "real option"
  pin_changes_per_active_user_month :: "real option"
  closures_per_churned_user :: "real option"

record Scenario =
  name :: "string option"
  horizon_months :: "int option"
  adoption :: "AdoptionConfig option"
  issuance :: "IssuanceConfig option"
  usage :: "UsageConfig option"
  commercial :: "CommercialConfig option"
  toggles :: "Toggles option"
  ops_assumptions :: "OpsAssumptions option"

section \<open>Results (engine/types.py)\<close>

record MonthlyResult =
  month :: int
  active_cards :: real
  issued_cards :: real
  issued_physical :: real
  issued_virtual :: real
  total_spend :: real
  in_app_spend :: real
  tx_count :: real
  eea_auth :: real
  non_eea_auth :: real
  three_ds_attempts :: real
  rev_partner :: real
  rev_interchange :: real
  rev_b2b :: real
  cost_fixed :: real
  cost_oneoff :: real
  cost_active_cards :: real
  cost_auth :: real
  cost_3ds :: real
  cost_events :: real
  cost_physical :: real
  total_revenue :: real
  total_costs :: real
  profit :: real
  cumulative_profit :: real
  costs_excl_b2b :: real
  rev_excl_b2b :: real

record SimulationKPIs =
  breakeven_month :: "int option"
  profit_year1 :: real
  profit_year2 :: "real option"
  profit_year3 :: "real option"
  required_employee_fee_month :: "real option"
  kpi_total_revenue :: real
  kpi_total_costs :: real
  kpi_total_profit :: real
  avg_monthly_profit :: real
  roi_percent :: "real option"
  profit_status :: string
  is_solved_breakeven :: bool

record SimulationResult =
  rows :: "MonthlyResult list"
  kpis :: SimulationKPIs
  scenario_name :: string
  pricing_plan_id :: string

section \<open>Simulation engine (engine/model.py)\<close>

subsection \<open>Construction: the event-fee index\<close>

text \<open>
  \<^verbatim>\<open>{e["key"]: e for e in pricing_plan.get("event_fees", [])}\<close>: a later entry with the
  same key replaces an earlier one.
\<close>

definition event_fees_map :: "PricingPlan \<Rightarrow> (string \<rightharpoonup> EventFee)" where
  "event_fees_map plan = map_of (rev (map (\<lambda>e. (event_key e, e)) (event_fees plan)))"

subsection \<open>Parsing the scenario\<close>

text \<open>The local variables of \<^verbatim>\<open>simulate\<close> once the scenario has been read.\<close>

record Params =
  p_months :: int
  p_toggles :: Toggles
  p_ops :: OpsAssumptions
  p_start_active :: real
  p_net_adds :: real
  p_churn_rate :: real
  p_spend_per_active :: real
  p_in_app_share :: real
  p_avg_ticket :: real
  p_ecom_share :: real
  p_three_ds_attempt_rate :: real
  p_eea_share :: real
  p_auth_multiplier :: real
  p_partner_fee_pct :: real
  p_interchange_pct :: real
  p_companies :: real
  p_platform_fee_company_month :: real
  p_employee_fee_month :: real
  p_b2b_mode :: string
  p_target :: B2BTarget
  p_target_months :: int
  p_target_type :: string
  p_physical_share :: real
  p_issued_equals_net_adds :: bool

definition empty_ops :: OpsAssumptions where
  "empty_ops = \<lparr>kyc_attempts_per_new_user = None, doc_confirm_rate_per_new_user = None,
     dispute_rate_per_tx = None, sms_per_active_user_month = None,
     pin_changes_per_active_user_month = None, closures_per_churned_user = None\<rparr>"

definition empty_issuance :: IssuanceConfig where
  "empty_issuance = \<lparr>physical_share_issued = None, issued_equals_net_adds = None\<rparr>"

definition default_target :: B2BTarget where
  "default_target = \<lparr>target_type = Some ''breakeven'', target_months = Some 12,
     target_amount = None\<rparr>"

text \<open>
  Lines 51 to 89 of \<^verbatim>\<open>simulate\<close>, in source order: each subscript is a \<open>require\<close>, each
  \<^verbatim>\<open>get\<close> a \<open>dict_get\<close>. This is the reading of a scenario whose values already have
  their declared types, on which \<^verbatim>\<open>int()\<close>, \<^verbatim>\<open>float()\<close> and \<^verbatim>\<open>bool()\<close> change nothing;
  \<open>parse_raw\<close> below reads the dictionary as it arrives, coercions included, and
  agrees with this one on such scenarios.
\<close>

definition parse_scenario :: "Scenario \<Rightarrow> error + Params" where
  "parse_scenario scenario =
     ebind (require ''horizon_months'' (horizon_months scenario)) (\<lambda>months.
     ebind (require ''adoption'' (adoption scenario)) (\<lambda>adoption_d.
     ebind (require ''usage'' (usage scenario)) (\<lambda>usage_d.
     ebind (require ''commercial'' (commercial scenario)) (\<lambda>commercial_d.
     ebind (require ''toggles'' (toggles scenario)) (\<lambda>toggles_d.
     let ops = dict_get (ops_assumptions scenario) empty_ops;
         issuance_d = dict_get (issuance scenario) empty_issuance
     in
     ebind (require ''start_active_cards'' (start_active_cards adoption_d)) (\<lambda>start_active.
     let net_adds = dict_get (monthly_net_adds adoption_d) 0;
         churn = dict_get (churn_rate adoption_d) 0
     in
     ebind (require ''spend_per_active_card_month'' (spend_per_active_card_month usage_d))
       (\<lambda>spend_per_active.
     ebind (require ''in_app_share'' (in_app_share usage_d)) (\<lambda>in_app.
     ebind (require ''avg_ticket'' (avg_ticket usage_d)) (\<lambda>ticket.
     ebind (require ''ecom_share'' (ecom_share usage_d)) (\<lambda>ecom.
     let three_ds_rate = dict_get (three_ds_attempt_rate usage_d) 1;
         eea = dict_get (eea_share usage_d) (95 / 100);
         multiplier = dict_get (auth_multiplier usage_d) 1
     in
     ebind (require ''partner_fee_pct'' (partner_fee_pct commercial_d)) (\<lambda>partner_pct.
     ebind (require ''interchange_pct'' (interchange_pct commercial_d)) (\<lambda>interchange.
     ebind (require ''b2b'' (b2b commercial_d)) (\<lambda>b2b_d.
     let target_d = dict_get (target b2b_d) default_target
     in Inr \<lparr>p_months = months,
          p_toggles = toggles_d,
          p_ops = ops,
          p_start_active = start_active,
          p_net_adds = net_adds,
          p_churn_rate = churn,
          p_spend_per_active = spend_per_active,
          p_in_app_share = in_app,
          p_avg_ticket = ticket,
          p_ecom_share = ecom,
          p_three_ds_attempt_rate = three_ds_rate,
          p_eea_share = eea,
          p_auth_multiplier = multiplier,
          p_partner_fee_pct = partner_pct,
          p_interchange_pct = interchange,
          p_companies = dict_get (companies b2b_d) 1,
          p_platform_fee_company_month = dict_get (platform_fee_company_month b2b_d) 0,
          p_employee_fee_month = dict_get (employee_fee_month b2b_d) 0,
          p_b2b_mode = dict_get (mode b2b_d) ''given'',
          p_target = target_d,
          p_target_months = dict_get (target_months target_d) 12,
          p_target_type = dict_get (target_type target_d) ''breakeven'',
          p_physical_share = dict_get (physical_share_issued issuance_d) 0,
          p_issued_equals_net_adds = dict_get (issued_equals_net_adds issuance_d) True\<rparr>
     )))))))))))))"

subsection \<open>One-off and fixed monthly costs\<close>

text \<open>\<^verbatim>\<open>toggles.get(toggle_key, feature.get("enabled_by_default", False))\<close>.\<close>

definition feature_on :: "Toggles \<Rightarrow> string \<times> OptionalFeature \<Rightarrow> bool" where
  "feature_on toggles_d item =
     (let toggle_key = dict_get (feature_key (snd item)) (fst item)
      in dict_get (flags toggles_d toggle_key)
           (dict_get (feature_enabled_by_default (snd item)) False))"

fun compute_one_offs_loop ::
  "Toggles \<Rightarrow> (string \<times> OptionalFeature) list \<Rightarrow> (int \<rightharpoonup> real) \<Rightarrow> (int \<rightharpoonup> real)" where
  "compute_one_offs_loop toggles_d [] one_offs_by_month = one_offs_by_month"
| "compute_one_offs_loop toggles_d (item # rest) one_offs_by_month =
     compute_one_offs_loop toggles_d rest
       (if feature_on toggles_d item then
          (let setup_cost = dict_get (feature_setup (snd item)) 0
           in if setup_cost > 0
              then one_offs_by_month(1 \<mapsto> dict_get (one_offs_by_month 1) 0 + setup_cost)
              else one_offs_by_month)
        else one_offs_by_month)"

definition compute_one_offs :: "PricingPlan \<Rightarrow> int \<Rightarrow> Toggles \<Rightarrow> (int \<rightharpoonup> real)" where
  "compute_one_offs plan months toggles_d =
     compute_one_offs_loop toggles_d (optional_features plan) Map.empty"

fun fixed_fees_loop :: "Toggles \<Rightarrow> FixedMonthlyFee list \<Rightarrow> real \<Rightarrow> real" where
  "fixed_fees_loop toggles_d [] acc = acc"
| "fixed_fees_loop toggles_d (item # rest) acc =
     fixed_fees_loop toggles_d rest
       (if dict_get (fee_mandatory item) False
           \<or> dict_get (flags toggles_d (fee_key item)) (dict_get (fee_enabled_by_default item) False)
        then acc + fee_amount item else acc)"

fun feature_monthly_loop ::
  "Toggles \<Rightarrow> (string \<times> OptionalFeature) list \<Rightarrow> real \<Rightarrow> real" where
  "feature_monthly_loop toggles_d [] acc = acc"
| "feature_monthly_loop toggles_d (item # rest) acc =
     feature_monthly_loop toggles_d rest
       (if feature_on toggles_d item
        then acc + dict_get (feature_monthly (snd item)) 0 else acc)"

definition compute_fixed_monthly :: "PricingPlan \<Rightarrow> Toggles \<Rightarrow> real" where
  "compute_fixed_monthly plan toggles_d =
     feature_monthly_loop toggles_d (optional_features plan)
       (fixed_fees_loop toggles_d (fixed_monthly plan) 0)"

subsection \<open>Event costs\<close>

definition is_enabled :: "(string \<rightharpoonup> EventFee) \<Rightarrow> (string \<rightharpoonup> bool) \<Rightarrow> string \<Rightarrow> bool" where
  "is_enabled fees event_toggles key =
     (if (case fees key of None \<Rightarrow> False | Some fee_config \<Rightarrow> dict_get (event_mandatory fee_config) False)
      then True
      else dict_get (event_toggles key)
             (case fees key of None \<Rightarrow> False
              | Some fee_config \<Rightarrow> dict_get (event_enabled_by_default fee_config) False))"

text \<open>
  \<open>event_term\<close> is one guarded \<^verbatim>\<open>cost += quantity * amount\<close>: the amount is read only when
  the key is in the index, which every use in the source checks first.
\<close>

definition event_term :: "(string \<rightharpoonup> EventFee) \<Rightarrow> string \<Rightarrow> real \<Rightarrow> real" where
  "event_term fees key quantity =
     (case fees key of None \<Rightarrow> 0 | Some fee_config \<Rightarrow> quantity * event_amount fee_config)"

definition compute_event_costs ::
  "PricingPlan \<Rightarrow> Toggles \<Rightarrow> OpsAssumptions \<Rightarrow> real \<Rightarrow> real \<Rightarrow> real \<Rightarrow> real \<Rightarrow> real \<Rightarrow> real" where
  "compute_event_costs plan toggles_d ops issued issued_phys tx active churned =
     (let fees = event_fees_map plan;
          enabled = is_enabled fees (event_fee_flags toggles_d);
          cost = 0;
          cost = cost + event_term fees ''card_issue'' issued;
          cost = (if issued_phys > 0 \<and> enabled ''plastic_personalization''
                  then cost + event_term fees ''plastic_personalization'' issued_phys else cost);
          cost = (if issued > 0 \<and> enabled ''kyc_attempt''
                  then cost + event_term fees ''kyc_attempt''
                         (issued * dict_get (kyc_attempts_per_new_user ops) 1) else cost);
          cost = (if issued > 0 \<and> enabled ''account_documents''
                  then cost + event_term fees ''account_documents''
                         (issued * dict_get (doc_confirm_rate_per_new_user ops) 0) else cost);
          cost = (if enabled ''dispute''
                  then cost + event_term fees ''dispute''
                         (tx * dict_get (dispute_rate_per_tx ops) 0) else cost);
          cost = (if enabled ''sms''
                  then cost + event_term fees ''sms''
                         (active * dict_get (sms_per_active_user_month ops) 0) else cost);
          cost = (if enabled ''pin_change''
                  then cost + event_term fees ''pin_change''
                         (active * dict_get (pin_changes_per_active_user_month ops) 0) else cost);
          cost = (if enabled ''account_closure''
                  then cost + event_term fees ''account_closure''
                         (churned * dict_get (closures_per_churned_user ops) 0) else cost)
      in cost)"

subsection \<open>Physical card costs\<close>

text \<open>The manufacturing loop: \<^verbatim>\<open>price\<close> starts at 0 and the first matching tier sets it.\<close>

fun manufacturing_price_loop :: "real \<Rightarrow> ManufacturingTier list \<Rightarrow> real" where
  "manufacturing_price_loop issued_phys [] = 0"
| "manufacturing_price_loop issued_phys (tier # rest) =
     (let min_b = dict_get (min_batch tier) (dict_get (min_key tier) 0);
          max_b = dict_get (max_batch tier) (max_key tier)
      in if issued_phys \<ge> min_b \<and> (case max_b of None \<Rightarrow> True | Some m \<Rightarrow> issued_phys \<le> m)
         then mfg_price tier
         else manufacturing_price_loop issued_phys rest)"

definition compute_physical_costs :: "PricingPlan \<Rightarrow> Toggles \<Rightarrow> real \<Rightarrow> real" where
  "compute_physical_costs plan toggles_d issued_phys =
     (if issued_phys \<le> 0 then 0
      else
        (let cost = 0;
             cost =
               (if dict_get (flags toggles_d ''physical_manufacturing'') False then
                  (let tiers = manufacturing_tiers plan;
                       found = manufacturing_price_loop issued_phys tiers;
                       unit_price = (if found = 0 \<and> tiers \<noteq> [] then mfg_price (hd tiers) else found)
                   in cost + issued_phys * unit_price)
                else cost);
             cost =
               (if dict_get (flags toggles_d ''physical_delivery'') False then
                  (let methods = delivery_methods plan;
                       chosen = dict_get (delivery_method toggles_d)
                                  (dict_get (default_method plan) ''dhl_tracked'');
                       method = (case find (\<lambda>m. method_key m = chosen) methods of
                                   Some m \<Rightarrow> Some m
                                 | None \<Rightarrow> (case methods of [] \<Rightarrow> None | m # _ \<Rightarrow> Some m))
                   in case method of None \<Rightarrow> cost | Some m \<Rightarrow> cost + issued_phys * method_price m)
                else cost)
         in cost))"

subsection \<open>One month of the projection\<close>

text \<open>
  The body of the \<^verbatim>\<open>for m in range(1, months + 1)\<close> loop. \<open>active_prev\<close> and
  \<open>cumulative_prev\<close> are the values of the loop-carried variables \<^verbatim>\<open>active\<close> and
  \<^verbatim>\<open>cumulative_profit\<close> on entry; the row holds their values on exit. The four
  \<^verbatim>\<open>apply_tiers\<close> calls can raise, in this order.
\<close>

definition simulate_month ::
  "PricingPlan \<Rightarrow> Params \<Rightarrow> (int \<rightharpoonup> real) \<Rightarrow> real \<Rightarrow> int \<Rightarrow> real \<Rightarrow> real
     \<Rightarrow> error + MonthlyResult" where
  "simulate_month plan p one_offs_by_month fixed_monthly_total m active_prev cumulative_prev =
     (let churned = active_prev * p_churn_rate p;
          active = max 0 (active_prev - churned + p_net_adds p);
          issued = (if p_issued_equals_net_adds p then p_net_adds p else 0);
          issued = max 0 issued;
          issued_phys = issued * p_physical_share p;
          issued_virt = issued - issued_phys;
          spend = active * p_spend_per_active p;
          in_app = spend * p_in_app_share p;
          tx = (if p_avg_ticket p \<le> 0 then 0 else (spend / p_avg_ticket p) * p_auth_multiplier p);
          eea = tx * p_eea_share p;
          non_eea = tx - eea;
          ecom_tx = tx * p_ecom_share p;
          three_ds = ecom_tx * p_three_ds_attempt_rate p;
          partner_rev = in_app * p_partner_fee_pct p;
          interchange_rev = spend * p_interchange_pct p
      in
      ebind (apply_tiers active (active_cards_tiers plan)) (\<lambda>active_cost.
      ebind (apply_tiers eea (authorizations_eea_tiers plan)) (\<lambda>eea_cost.
      ebind (apply_tiers non_eea (authorizations_non_eea_tiers plan)) (\<lambda>non_eea_cost.
      let auth_cost = eea_cost + non_eea_cost in
      ebind (apply_tiers three_ds (three_ds_tiers plan)) (\<lambda>three_ds_cost.
      let fixed_cost = fixed_monthly_total;
          one_off = dict_get (one_offs_by_month m) 0;
          event_cost = compute_event_costs plan (p_toggles p) (p_ops p)
                         issued issued_phys tx active churned;
          physical_cost = compute_physical_costs plan (p_toggles p) issued_phys;
          costs_excl = fixed_cost + one_off + active_cost + auth_cost
                         + three_ds_cost + event_cost + physical_cost;
          rev_excl = partner_rev + interchange_rev;
          b2b_rev = (if p_b2b_mode p = ''given''
                     then p_companies p * p_platform_fee_company_month p
                            + active * p_employee_fee_month p
                     else 0);
          total_rev = rev_excl + b2b_rev;
          month_profit = total_rev - costs_excl;
          cumulative = cumulative_prev + month_profit
      in Inr \<lparr>month = m,
           active_cards = active,
           issued_cards = issued,
           issued_physical = issued_phys,
           issued_virtual = issued_virt,
           total_spend = spend,
           in_app_spend = in_app,
           tx_count = tx,
           eea_auth = eea,
           non_eea_auth = non_eea,
           three_ds_attempts = three_ds,
           rev_partner = partner_rev,
           rev_interchange = interchange_rev,
           rev_b2b = b2b_rev,
           cost_fixed = fixed_cost,
           cost_oneoff = one_off,
           cost_active_cards = active_cost,
           cost_auth = auth_cost,
           cost_3ds = three_ds_cost,
           cost_events = event_cost,
           cost_physical = physical_cost,
           total_revenue = total_rev,
           total_costs = costs_excl,
           profit = month_profit,
           cumulative_profit = cumulative,
           costs_excl_b2b = costs_excl,
           rev_excl_b2b = rev_excl\<rparr>)))))"

text \<open>
  The monthly loop over the month numbers \<open>ms\<close>, carrying \<^verbatim>\<open>active\<close> and
  \<^verbatim>\<open>cumulative_profit\<close>; an exception in any month ends it.
\<close>

fun simulate_loop ::
  "PricingPlan \<Rightarrow> Params \<Rightarrow> (int \<rightharpoonup> real) \<Rightarrow> real \<Rightarrow> int list \<Rightarrow> real \<Rightarrow> real
     \<Rightarrow> error + MonthlyResult list" where
  "simulate_loop plan p one_offs_by_month fixed_monthly_total [] active cumulative = Inr []"
| "simulate_loop plan p one_offs_by_month fixed_monthly_total (m # ms) active cumulative =
     (case simulate_month plan p one_offs_by_month fixed_monthly_total m active cumulative of
        Inl e \<Rightarrow> Inl e
      | Inr row \<Rightarrow>
          (case simulate_loop plan p one_offs_by_month fixed_monthly_total ms
                  (active_cards row) (cumulative_profit row) of
             Inl e \<Rightarrow> Inl e
           | Inr later \<Rightarrow> Inr (row # later)))"

subsection \<open>Solving for the employee fee\<close>

text \<open>
  The slice \<^verbatim>\<open>rows[:horizon]\<close>: the first \<open>horizon\<close> rows, and for a negative \<open>horizon\<close>
  all rows but the last \<open>- horizon\<close>.
\<close>

definition py_prefix :: "int \<Rightarrow> 'a list \<Rightarrow> 'a list" where
  "py_prefix n xs = (if 0 \<le> n then take (nat n) xs else take (nat (int (length xs) + n)) xs)"

definition solve_employee_fee ::
  "MonthlyResult list \<Rightarrow> real \<Rightarrow> real \<Rightarrow> int \<Rightarrow> string \<Rightarrow> B2BTarget \<Rightarrow> real" where
  "solve_employee_fee rs companies_n platform_fee target_months_n target_kind target_d =
     (let horizon = min target_months_n (int (length rs));
          sum_costs = sum_list (map costs_excl_b2b (py_prefix horizon rs));
          sum_rev = sum_list (map rev_excl_b2b (py_prefix horizon rs));
          total_active_months = sum_list (map active_cards (py_prefix horizon rs));
          platform_component = companies_n * platform_fee * real_of_int horizon;
          target_profit_total =
            (if target_kind = ''profit'' then dict_get (target_amount target_d) 0
             else if target_kind = ''margin'' then sum_rev * dict_get (target_amount target_d) 0
             else 0);
          needed_b2b_total = (sum_costs - sum_rev) + target_profit_total - platform_component
      in if total_active_months \<le> 0 then 0
         else max 0 (needed_b2b_total / total_active_months))"

text \<open>
  The second pass over the rows, \<open>cumulative\<close> the running \<^verbatim>\<open>cumulative_profit\<close>. The
  source updates four fields in place, each from the row as already updated.
\<close>

fun reapply_fee :: "real \<Rightarrow> real \<Rightarrow> real \<Rightarrow> real \<Rightarrow> MonthlyResult list \<Rightarrow> MonthlyResult list" where
  "reapply_fee companies_n platform_fee fee cumulative [] = []"
| "reapply_fee companies_n platform_fee fee cumulative (row # rest) =
     (let row = row\<lparr>rev_b2b := companies_n * platform_fee + active_cards row * fee\<rparr>;
          row = row\<lparr>total_revenue := rev_excl_b2b row + rev_b2b row\<rparr>;
          row = row\<lparr>profit := total_revenue row - costs_excl_b2b row\<rparr>;
          cumulative = cumulative + profit row;
          row = row\<lparr>cumulative_profit := cumulative\<rparr>
      in row # reapply_fee companies_n platform_fee fee cumulative rest)"

subsection \<open>KPIs\<close>

text \<open>
  The breakeven loop, \<open>was_negative\<close> its flag. The \<^verbatim>\<open>elif\<close> is reached only when the
  cumulative profit is not below \<open>-0.01\<close>.
\<close>

fun breakeven_loop :: "bool \<Rightarrow> MonthlyResult list \<Rightarrow> int option" where
  "breakeven_loop was_negative [] = None"
| "breakeven_loop was_negative (r # rest) =
     (if cumulative_profit r < - (1 / 100) then breakeven_loop True rest
      else if was_negative \<and> cumulative_profit r \<ge> 0 then Some (month r)
      else breakeven_loop was_negative rest)"

definition calculate_kpis :: "MonthlyResult list \<Rightarrow> int \<Rightarrow> real option \<Rightarrow> SimulationKPIs" where
  "calculate_kpis rs months required_employee_fee =
     (let sum_revenue = sum_list (map total_revenue rs);
          sum_costs = sum_list (map total_costs rs);
          sum_profit = sum_list (map profit rs)
      in \<lparr>breakeven_month = breakeven_loop False rs,
          profit_year1 = sum_list (map profit (take 12 rs)),
          profit_year2 = (if months \<ge> 24 then Some (sum_list (map profit (take 12 (drop 12 rs))))
                          else None),
          profit_year3 = (if months \<ge> 36 then Some (sum_list (map profit (take 12 (drop 24 rs))))
                          else None),
          required_employee_fee_month = required_employee_fee,
          kpi_total_revenue = sum_revenue,
          kpi_total_costs = sum_costs,
          kpi_total_profit = sum_profit,
          avg_monthly_profit = (if rs \<noteq> [] then sum_profit / real (length rs) else 0),
          roi_percent = (if sum_costs > 0 then Some ((sum_profit / sum_costs) * 100) else None),
          profit_status = (if \<bar>sum_profit\<bar> < 1 then ''balanced''
                           else if sum_profit > 0 then ''profitable'' else ''loss''),
          is_solved_breakeven = (required_employee_fee \<noteq> None)\<rparr>)"

subsection \<open>The whole simulation\<close>

text \<open>
  \<open>monthly_rows\<close> is the state after the first pass: the rows of the monthly loop, or the
  exception raised while parsing or in the loop.
\<close>

definition monthly_rows :: "PricingPlan \<Rightarrow> Params \<Rightarrow> error + MonthlyResult list" where
  "monthly_rows plan p =
     simulate_loop plan p
       (compute_one_offs plan (p_months p) (p_toggles p))
       (compute_fixed_monthly plan (p_toggles p))
       [1 .. p_months p] (p_start_active p) 0"

definition simulate :: "PricingPlan \<Rightarrow> Scenario \<Rightarrow> error + SimulationResult" where
  "simulate plan scenario =
     ebind (parse_scenario scenario) (\<lambda>p.
     ebind (monthly_rows plan p) (\<lambda>rs.
     let required_employee_fee =
           (if p_b2b_mode p = ''solve_employee_fee''
            then Some (solve_employee_fee rs (p_companies p) (p_platform_fee_company_month p)
                         (p_target_months p) (p_target_type p) (p_target p))
            else None);
         rs = (case required_employee_fee of
                 None \<Rightarrow> rs
               | Some fee \<Rightarrow>
                   reapply_fee (p_companies p) (p_platform_fee_company_month p) fee 0 rs)
     in Inr \<lparr>rows = rs,
          kpis = calculate_kpis rs (p_months p) required_employee_fee,
          scenario_name = dict_get (name scenario) ''Unnamed Scenario'',
          pricing_plan_id = dict_get (plan_id plan) ''unknown''\<rparr>))"

subsection \<open>The scenario before coercion\<close>
























section \<open>Sample data\<close>

text \<open>The schedule of the tier tests, \<^verbatim>\<open>tests/test_tiers.py\<close>.\<close>

definition sample_tiers :: "TierDefinition list" where
  "sample_tiers =
     [\<lparr>up_to = Some 7500, price = 95 / 100\<rparr>,
      \<lparr>up_to = Some 15000, price = 85 / 100\<rparr>,
      \<lparr>up_to = None, price = 75 / 100\<rparr>]"

text \<open>
  A plan with the figures the test suite expects of the plan file (0.95 per active card
  up to 7500 cards, 2495 of mandatory fixed fees, 0.13 and 0.20 per authorisation,
  0.30 per issued card, 1.50 per KYC attempt, 0.20 per SMS, 8995 and 995 a month for a
  dedicated BIN); the price per 3DS attempt, which no test fixes, is set to 0.05. Then
  the base scenario of the tests with six of its values left open: starting cards, net
  adds, churn rate, spend per card, partner fee and B2B mode.
\<close>

definition sample_plan :: PricingPlan where
  "sample_plan =
     \<lparr>plan_id = Some ''wallester'',
      fixed_monthly =
        [\<lparr>fee_key = ''program_maintenance'', fee_amount = 2495,
          fee_mandatory = Some True, fee_enabled_by_default = Some True\<rparr>],
      optional_features =
        [(''dedicated_bin'',
          \<lparr>feature_key = None, feature_enabled_by_default = Some False,
           feature_setup = Some 8995, feature_monthly = Some 995\<rparr>)],
      event_fees =
        [\<lparr>event_key = ''card_issue'', event_amount = 30 / 100,
          event_mandatory = Some True, event_enabled_by_default = Some True\<rparr>,
         \<lparr>event_key = ''kyc_attempt'', event_amount = 150 / 100,
          event_mandatory = None, event_enabled_by_default = Some False\<rparr>,
         \<lparr>event_key = ''sms'', event_amount = 20 / 100,
          event_mandatory = None, event_enabled_by_default = Some False\<rparr>],
      active_cards_tiers = sample_tiers,
      authorizations_eea_tiers = [\<lparr>up_to = None, price = 13 / 100\<rparr>],
      authorizations_non_eea_tiers = [\<lparr>up_to = None, price = 20 / 100\<rparr>],
      three_ds_tiers = [\<lparr>up_to = None, price = 5 / 100\<rparr>],
      manufacturing_tiers = [],
      delivery_methods = [],
      default_method = None\<rparr>"

definition base_toggles :: Toggles where
  "base_toggles =
     \<lparr>flags = [''program_maintenance'' \<mapsto> True, ''dedicated_bin'' \<mapsto> False,
               ''physical_manufacturing'' \<mapsto> False, ''physical_delivery'' \<mapsto> False],
      event_fee_flags = [''card_issue'' \<mapsto> True, ''kyc_attempt'' \<mapsto> False, ''sms'' \<mapsto> False],
      delivery_method = Some ''dhl_tracked''\<rparr>"

definition test_scenario :: "real \<Rightarrow> real \<Rightarrow> real \<Rightarrow> real \<Rightarrow> real \<Rightarrow> string \<Rightarrow> Scenario" where
  "test_scenario start adds churn spend partner b2b_mode =
     \<lparr>name = Some ''Test Scenario'',
      horizon_months = Some 12,
      adoption = Some \<lparr>start_active_cards = Some start, monthly_net_adds = Some adds,
                       churn_rate = Some churn\<rparr>,
      issuance = Some \<lparr>physical_share_issued = Some 0, issued_equals_net_adds = Some True\<rparr>,
      usage = Some \<lparr>spend_per_active_card_month = Some spend, in_app_share = Some (1 / 2),
                    avg_ticket = Some 50, ecom_share = Some (3 / 10),
                    three_ds_attempt_rate = Some 1, eea_share = Some (95 / 100),
                    auth_multiplier = Some 1\<rparr>,
      commercial = Some \<lparr>partner_fee_pct = Some partner, interchange_pct = Some (2 / 1000),
                          b2b = Some \<lparr>companies = Some 1, platform_fee_company_month = Some 0,
                                       employee_fee_month = Some 0, mode = Some b2b_mode,
                                       target = Some \<lparr>target_type = Some ''breakeven'',
                                                      target_months = Some 12,
                                                      target_amount = None\<rparr>\<rparr>\<rparr>,
      toggles = Some base_toggles,
      ops_assumptions = None\<rparr>"

text \<open>A row with a given month, profit and cumulative profit, every other figure zero.\<close>

definition sample_row :: "int \<Rightarrow> real \<Rightarrow> real \<Rightarrow> MonthlyResult" where
  "sample_row m month_profit cumulative =
     \<lparr>month = m, active_cards = 0, issued_cards = 0, issued_physical = 0, issued_virtual = 0,
      total_spend = 0, in_app_spend = 0, tx_count = 0, eea_auth = 0, non_eea_auth = 0,
      three_ds_attempts = 0, rev_partner = 0, rev_interchange = 0, rev_b2b = 0,
      cost_fixed = 0, cost_oneoff = 0, cost_active_cards = 0, cost_auth = 0, cost_3ds = 0,
      cost_events = 0, cost_physical = 0, total_revenue = 0, total_costs = 0,
      profit = month_profit, cumulative_profit = cumulative,
      costs_excl_b2b = 0, rev_excl_b2b = 0\<rparr>"

section \<open>Properties of the tier calculator\<close>

lemma apply_tiers_loop_find:
  "apply_tiers_loop v tiers = map_option (\<lambda>t. v * price t) (find (tier_matches v) tiers)"
  by (induction tiers) simp_all

lemma tier_matches_iff:
  "tier_matches v t \<longleftrightarrow> (up_to t = None \<or> (\<exists>u. up_to t = Some u \<and> v \<le> u))"
  by (cases "up_to t") simp_all

text \<open>
  Claim C2. For a positive volume and a non-empty schedule, \<^verbatim>\<open>apply_tiers\<close> charges the
  whole volume at the price of the first tier, in schedule order, whose \<^verbatim>\<open>up_to\<close> is null
  or at least the volume; when no tier qualifies it charges the last tier's price.
\<close>

theorem apply_tiers_first_match:
  assumes "0 < v" and "tiers \<noteq> []"
  shows "(\<forall>i < length tiers.
            (up_to (tiers ! i) = None \<or> (\<exists>u. up_to (tiers ! i) = Some u \<and> v \<le> u)) \<and>
            (\<forall>j < i. \<not> (up_to (tiers ! j) = None \<or> (\<exists>u. up_to (tiers ! j) = Some u \<and> v \<le> u)))
            \<longrightarrow> apply_tiers v tiers = Inr (v * price (tiers ! i)))
       \<and> ((\<forall>t \<in> set tiers. \<not> (up_to t = None \<or> (\<exists>u. up_to t = Some u \<and> v \<le> u)))
            \<longrightarrow> apply_tiers v tiers = Inr (v * price (last tiers)))"
proof (intro conjI allI impI)
  fix i
  assume i: "i < length tiers"
    and m: "(up_to (tiers ! i) = None \<or> (\<exists>u. up_to (tiers ! i) = Some u \<and> v \<le> u)) \<and>
            (\<forall>j < i. \<not> (up_to (tiers ! j) = None \<or> (\<exists>u. up_to (tiers ! j) = Some u \<and> v \<le> u)))"
  have "find (tier_matches v) tiers = Some (tiers ! i)"
    unfolding find_Some_iff using i m tier_matches_iff by blast
  then show "apply_tiers v tiers = Inr (v * price (tiers ! i))"
    using assms by (simp add: apply_tiers_def apply_tiers_loop_find)
next
  assume "\<forall>t \<in> set tiers. \<not> (up_to t = None \<or> (\<exists>u. up_to t = Some u \<and> v \<le> u))"
  then have "find (tier_matches v) tiers = None"
    unfolding find_None_iff using tier_matches_iff by blast
  then show "apply_tiers v tiers = Inr (v * price (last tiers))"
    using assms by (simp add: apply_tiers_def apply_tiers_loop_find)
qed

theorem apply_tiers_first_match_witness:
  "apply_tiers 10000 sample_tiers = Inr 8500 \<and>
   apply_tiers 20 [\<lparr>up_to = Some 10, price = 2\<rparr>, \<lparr>up_to = Some 15, price = 3\<rparr>] = Inr 60"
proof -
  have a: "(0::real) < 10000" and b: "sample_tiers \<noteq> []" by (simp_all add: sample_tiers_def)
  have c: "(0::real) < 20"
    and d: "[\<lparr>up_to = Some 10, price = 2\<rparr>, \<lparr>up_to = Some (15::real), price = 3::real\<rparr>] \<noteq> []" by simp_all
  from apply_tiers_first_match [OF a b] have "apply_tiers 10000 sample_tiers = Inr (10000 * price (sample_tiers ! 1))"
    by (simp add: sample_tiers_def less_Suc_eq)
  moreover from apply_tiers_first_match [OF c d]
  have "apply_tiers 20 [\<lparr>up_to = Some 10, price = 2\<rparr>, \<lparr>up_to = Some 15, price = 3\<rparr>] = Inr 60"
    by simp
  ultimately show ?thesis by (simp add: sample_tiers_def)
qed

text \<open>
  Claim C8. Both cost functions raise \<^verbatim>\<open>ValueError\<close> exactly when the volume is negative
  or the schedule is empty, and return a cost otherwise; on a non-empty schedule a zero
  volume costs zero whatever the tiers are.
\<close>

theorem tier_functions_errors:
  "((v < 0 \<or> tiers = []) \<longrightarrow> (\<exists>msg. apply_tiers v tiers = Inl (ValueError msg)))
   \<and> (\<not> (v < 0 \<or> tiers = []) \<longrightarrow> (\<exists>c. apply_tiers v tiers = Inr c))
   \<and> ((v < 0 \<or> tiers = []) \<longrightarrow> (\<exists>msg. apply_graduated_tiers v tiers = Inl (ValueError msg)))
   \<and> (\<not> (v < 0 \<or> tiers = []) \<longrightarrow> (\<exists>c. apply_graduated_tiers v tiers = Inr c))
   \<and> (tiers \<noteq> [] \<longrightarrow> apply_tiers 0 tiers = Inr 0 \<and> apply_graduated_tiers 0 tiers = Inr 0)"
  by (simp add: apply_tiers_def apply_graduated_tiers_def split: option.split)

theorem tier_functions_errors_witness:
  "apply_tiers (-100) sample_tiers = Inl (ValueError ''Volume must be >= 0'')
   \<and> apply_tiers 100 [] = Inl (ValueError ''Tiers list cannot be empty'')
   \<and> apply_tiers 0 [] = Inl (ValueError ''Tiers list cannot be empty'')
   \<and> apply_graduated_tiers (-100) sample_tiers = Inl (ValueError ''Volume must be >= 0'')
   \<and> apply_graduated_tiers 100 [] = Inl (ValueError ''Tiers list cannot be empty'')
   \<and> (\<exists>c. apply_tiers 5000 sample_tiers = Inr c)
   \<and> (\<exists>c. apply_graduated_tiers 5000 sample_tiers = Inr c)
   \<and> apply_tiers 0 sample_tiers = Inr 0 \<and> apply_graduated_tiers 0 sample_tiers = Inr 0"
  using tier_functions_errors [of "-100" sample_tiers] tier_functions_errors [of 100 "[]"]
    tier_functions_errors [of 5000 sample_tiers] tier_functions_errors [of 0 "[]"]
  by (simp add: sample_tiers_def apply_tiers_def apply_graduated_tiers_def)

text \<open>
  Claim C10. On the empty schedule \<^verbatim>\<open>find_tier_index\<close> returns \<open>-1\<close> for every volume
  and \<^verbatim>\<open>get_effective_rate\<close> returns \<open>0\<close> for every volume \<open>\<le> 0\<close>, where both cost
  functions raise.
\<close>

theorem lookup_helpers_empty_schedule:
  "find_tier_index v [] = - 1
   \<and> (v \<le> 0 \<longrightarrow> get_effective_rate v [] = Inr 0)
   \<and> (\<exists>msg. apply_tiers v [] = Inl (ValueError msg))
   \<and> (\<exists>msg. apply_graduated_tiers v [] = Inl (ValueError msg))"
  by (simp add: find_tier_index_def get_effective_rate_def apply_tiers_def apply_graduated_tiers_def)

theorem lookup_helpers_empty_schedule_witness:
  "find_tier_index 5 [] = - 1 \<and> get_effective_rate (- 3) [] = Inr 0 \<and> get_effective_rate 0 [] = Inr 0"
  using lookup_helpers_empty_schedule [of 5] lookup_helpers_empty_schedule [of "-3"]
    lookup_helpers_empty_schedule [of 0]
  by simp

subsection \<open>Graduated pricing\<close>

lemma graduated_loop_zero: "graduated_loop ts t 0 prev = t"
proof (cases ts)
  case Nil
  then show ?thesis by simp
next
  case (Cons tier rest)
  then show ?thesis by (cases "up_to tier") (simp_all add: Let_def)
qed

lemma graduated_loop_shift:
  "graduated_loop ts t r prev = t + graduated_loop ts 0 r prev"
proof (induction ts arbitrary: t r prev)
  case Nil
  then show ?case by simp
next
  case (Cons tier rest)
  show ?case
  proof (cases "up_to tier")
    case None
    then show ?thesis by simp
  next
    case (Some u)
    define tv where "tv = min r (u - prev)"
    define t1 where "t1 = (if tv > 0 then tv * price tier else 0)"
    define r1 where "r1 = (if tv > 0 then r - tv else r)"
    have "graduated_loop (tier # rest) t r prev =
            (if r1 \<le> 0 then t + t1 else graduated_loop rest (t + t1) r1 u)"
      by (simp add: Some Let_def tv_def t1_def r1_def)
    moreover have "graduated_loop (tier # rest) 0 r prev =
            (if r1 \<le> 0 then t1 else graduated_loop rest t1 r1 u)"
      by (simp add: Some Let_def tv_def t1_def r1_def)
    moreover have "graduated_loop rest (t + t1) r1 u = t + graduated_loop rest t1 r1 u"
      using Cons.IH[of "t + t1" r1 u] Cons.IH[of t1 r1 u] by simp
    ultimately show ?thesis by simp
  qed
qed

text \<open>One band of the graduated loop in closed form, for a remaining volume \<open>r \<ge> 0\<close>.\<close>

lemma graduated_loop_band:
  assumes "0 \<le> r" and "up_to tier = Some u"
  shows "graduated_loop (tier # rest) 0 r prev =
     (if u - prev \<le> 0 then graduated_loop rest 0 r u
      else price tier * min r (u - prev) + graduated_loop rest 0 (max 0 (r - (u - prev))) u)"
proof (cases "u - prev \<le> 0")
  case True
  then have "\<not> 0 < min r (u - prev)" by simp
  then show ?thesis
    using True assms graduated_loop_zero[of rest 0 u]
    by (cases "r = 0") (simp_all add: Let_def)
next
  case False
  show ?thesis
  proof (cases "r \<le> u - prev")
    case True
    then have m: "min r (u - prev) = r" by simp
    show ?thesis
      using False True assms graduated_loop_zero[of rest 0 u]
      by (cases "r = 0") (simp_all add: Let_def m)
  next
    case gt: False
    then have m: "min r (u - prev) = u - prev" by simp
    show ?thesis
      using False gt assms graduated_loop_shift[of rest "(u - prev) * price tier" "r - (u - prev)" u]
      by (simp add: Let_def m mult.commute)
  qed
qed

lemma graduated_loop_lipschitz_le:
  assumes "\<forall>tier \<in> set ts. \<bar>price tier\<bar> \<le> K" and "0 \<le> r" and "r \<le> r'" and "0 \<le> K"
  shows "\<bar>graduated_loop ts 0 r' prev - graduated_loop ts 0 r prev\<bar> \<le> K * (r' - r)"
  using assms
proof (induction ts arbitrary: r r' prev)
  case Nil
  then show ?case by simp
next
  case (Cons tier rest)
  have K: "\<bar>price tier\<bar> \<le> K" and Krest: "\<forall>tier \<in> set rest. \<bar>price tier\<bar> \<le> K"
    using Cons.prems(1) by simp_all
  have K0: "0 \<le> K" using K by linarith
  show ?case
  proof (cases "up_to tier")
    case None
    have "\<bar>r' * price tier - r * price tier\<bar> = \<bar>price tier\<bar> * (r' - r)"
      using Cons.prems(3) by (simp add: left_diff_distrib[symmetric] abs_mult)
    also have "\<dots> \<le> K * (r' - r)"
      using K Cons.prems(3) by (intro mult_right_mono) simp_all
    finally show ?thesis using None by simp
  next
    case (Some u)
    have r': "0 \<le> r'" using Cons.prems(2,3) by simp
    show ?thesis
    proof (cases "u - prev \<le> 0")
      case True
      then show ?thesis
        using Cons.IH[OF Krest Cons.prems(2,3,4), of u]
        by (simp add: graduated_loop_band[OF Cons.prems(2) Some] graduated_loop_band[OF r' Some]
              del: graduated_loop.simps)
    next
      case False
      define c where "c = u - prev"
      define a where "a = min r' c - min r c"
      define b where "b = max 0 (r' - c) - max 0 (r - c)"
      have a: "0 \<le> a" and b: "0 \<le> b" and ab: "a + b = r' - r"
        using Cons.prems(2,3) False unfolding a_def b_def c_def by (auto simp: min_def max_def)
      have "\<bar>graduated_loop rest 0 (max 0 (r' - c)) u - graduated_loop rest 0 (max 0 (r - c)) u\<bar>
              \<le> K * b"
        unfolding b_def using Cons.prems(3,4) by (intro Cons.IH[OF Krest]) (simp_all add: max_def)
      moreover have "\<bar>price tier * min r' c - price tier * min r c\<bar> \<le> K * a"
      proof -
        have "\<bar>price tier * min r' c - price tier * min r c\<bar> = \<bar>price tier\<bar> * a"
          using a unfolding a_def by (simp add: right_diff_distrib[symmetric] abs_mult)
        also have "\<dots> \<le> K * a" using K a by (intro mult_right_mono) simp_all
        finally show ?thesis .
      qed
      ultimately have "\<bar>(price tier * min r' c + graduated_loop rest 0 (max 0 (r' - c)) u)
            - (price tier * min r c + graduated_loop rest 0 (max 0 (r - c)) u)\<bar> \<le> K * a + K * b"
        by linarith
      also have "K * a + K * b = K * (r' - r)" using ab by (simp add: distrib_left[symmetric])
      finally show ?thesis
        using False
        by (simp add: graduated_loop_band[OF Cons.prems(2) Some] graduated_loop_band[OF r' Some] c_def
              del: graduated_loop.simps)
    qed
  qed
qed


lemma price_le_sum:
  "tier \<in> set ts \<Longrightarrow> \<bar>price tier\<bar> \<le> sum_list (map (\<lambda>t. \<bar>price t\<bar>) ts)"
proof (induction ts)
  case Nil
  then show ?case by simp
next
  case (Cons t ts)
  have "0 \<le> sum_list (map (\<lambda>t. \<bar>price t\<bar>) ts)" by (rule sum_list_nonneg) auto
  with Cons show ?case by auto
qed

lemma graduated_loop_lipschitz:
  assumes "0 \<le> r" and "0 \<le> r'"
  shows "\<bar>graduated_loop ts 0 r' prev - graduated_loop ts 0 r prev\<bar>
           \<le> sum_list (map (\<lambda>t. \<bar>price t\<bar>) ts) * \<bar>r' - r\<bar>"
proof -
  let ?K = "sum_list (map (\<lambda>t. \<bar>price t\<bar>) ts)"
  have K: "\<forall>tier \<in> set ts. \<bar>price tier\<bar> \<le> ?K" using price_le_sum by blast
  have K0: "0 \<le> ?K" by (rule sum_list_nonneg) auto
  show ?thesis
  proof (cases "r \<le> r'")
    case True
    with graduated_loop_lipschitz_le[OF K assms(1) True K0] show ?thesis by simp
  next
    case False
    then have le: "r' \<le> r" by simp
    from graduated_loop_lipschitz_le[OF K assms(2) le K0, of prev] le show ?thesis
      by (simp add: abs_minus_commute)
  qed
qed

lemma graduated_cost_eq:
  assumes "tiers \<noteq> []" and "0 \<le> v"
  shows "apply_graduated_tiers v tiers = Inr (graduated_loop tiers 0 v 0)"
  using assms by (simp add: apply_graduated_tiers_def graduated_loop_zero)

lemma graduated_continuous:
  assumes "tiers \<noteq> []"
  shows "continuous_on {0..} (\<lambda>v. projr (apply_graduated_tiers v tiers))"
proof -
  let ?K = "sum_list (map (\<lambda>t. \<bar>price t\<bar>) tiers)"
  have K0: "0 \<le> ?K" by (rule sum_list_nonneg) auto
  have lip: "\<bar>projr (apply_graduated_tiers w tiers) - projr (apply_graduated_tiers v tiers)\<bar>
               \<le> ?K * \<bar>w - v\<bar>" if "0 \<le> v" "0 \<le> w" for v w
    using graduated_loop_lipschitz[OF that, of tiers 0]
    by (simp add: graduated_cost_eq[OF assms that(1)] graduated_cost_eq[OF assms that(2)])
  show ?thesis
    unfolding continuous_on_def tendsto_iff eventually_at
  proof (intro ballI allI impI)
    fix v :: real and e :: real
    assume v: "v \<in> {0..}" and e: "0 < e"
    define d where "d = e / (?K + 1)"
    have d: "0 < d" using e K0 by (simp add: d_def)
    have "dist (projr (apply_graduated_tiers w tiers)) (projr (apply_graduated_tiers v tiers)) < e"
      if w: "w \<in> {0..}" and close: "dist w v < d" for w
    proof -
      have "\<bar>projr (apply_graduated_tiers w tiers) - projr (apply_graduated_tiers v tiers)\<bar>
              \<le> ?K * \<bar>w - v\<bar>"
        using lip v w by simp
      also have "\<dots> \<le> ?K * d"
        using close K0 by (intro mult_left_mono) (simp_all add: dist_real_def)
      also have "\<dots> < (?K + 1) * d" using d by simp
      also have "\<dots> = e" using K0 by (simp add: d_def)
      finally show ?thesis by (simp add: dist_real_def)
    qed
    with d show "\<exists>d>0. \<forall>w\<in>{0..}. w \<noteq> v \<and> dist w v < d \<longrightarrow>
        dist (projr (apply_graduated_tiers w tiers)) (projr (apply_graduated_tiers v tiers)) < e"
      by blast
  qed
qed

lemma graduated_limit_from_right:
  assumes "tiers \<noteq> []" and "0 \<le> b"
  shows "((\<lambda>v. projr (apply_graduated_tiers v tiers))
           \<longlongrightarrow> projr (apply_graduated_tiers b tiers)) (at_right b)"
proof -
  have "continuous (at b within {0..}) (\<lambda>v. projr (apply_graduated_tiers v tiers))"
    using graduated_continuous[OF assms(1)] assms(2) by (simp add: continuous_on_eq_continuous_within)
  then have "((\<lambda>v. projr (apply_graduated_tiers v tiers))
           \<longlongrightarrow> projr (apply_graduated_tiers b tiers)) (at b within {0..})"
    by (simp add: continuous_within)
  moreover have "at_right b \<le> at b within {0..}"
    using assms(2) by (intro at_le) auto
  ultimately show ?thesis by (rule tendsto_mono[rotated])
qed

lemma first_band_equal:
  assumes "tiers \<noteq> []"
    and "up_to (hd tiers) = None \<or> (\<exists>b. up_to (hd tiers) = Some b \<and> v \<le> b)"
  shows "apply_graduated_tiers v tiers = apply_tiers v tiers"
proof -
  from assms(1) obtain tier rest where tiers: "tiers = tier # rest" by (cases tiers) auto
  show ?thesis
    using assms(2) unfolding tiers
    by (auto simp: apply_graduated_tiers_def apply_tiers_def Let_def mult.commute)
qed


lemma tier_matches_Some: "up_to t = Some u \<Longrightarrow> tier_matches v t \<longleftrightarrow> v \<le> u"
  by simp

lemma tier_matches_None: "up_to t = None \<Longrightarrow> tier_matches v t"
  by simp

lemma graduated_loop_lower_bound:
  assumes "find (tier_matches (prev + r)) ts = Some tk" and "0 < r"
    and "sorted_wrt (\<lambda>s t. case up_to s of None \<Rightarrow> False
                       | Some a \<Rightarrow> (case up_to t of None \<Rightarrow> True | Some b \<Rightarrow> a < b)) ts"
    and "sorted_wrt (\<lambda>s t. price t < price s) ts"
    and "\<forall>t \<in> set ts. \<forall>b. up_to t = Some b \<longrightarrow> prev < b"
  shows "r * price tk \<le> graduated_loop ts 0 r prev"
  using assms
proof (induction ts arbitrary: prev r)
  case Nil
  then show ?case by simp
next
  case (Cons tier rest)
  show ?case
  proof (cases "up_to tier")
    case None
    with Cons.prems(1) show ?thesis by simp
  next
    case (Some u)
    note matches = tier_matches_Some[OF Some, of "prev + r"]
    from Some Cons.prems(5) have u: "prev < u" by simp
    have r0: "0 \<le> r" using Cons.prems(2) by simp
    show ?thesis
    proof (cases "prev + r \<le> u")
      case True
      with Cons.prems(1) have tk: "tk = tier"
        by (simp add: matches del: tier_matches.simps)
      from True have "min r (u - prev) = r" "max 0 (r - (u - prev)) = 0" by simp_all
      with u show ?thesis
        by (simp add: graduated_loop_band[OF r0 Some] graduated_loop_zero tk mult.commute
                 del: graduated_loop.simps)
    next
      case False
      with Cons.prems(1) have found: "find (tier_matches (prev + r)) rest = Some tk"
        by (simp add: matches del: tier_matches.simps)
      then have "tk \<in> set rest" by (auto simp: find_Some_iff)
      with Cons.prems(4) have cheaper: "price tk < price tier" by simp
      define r' where "r' = r - (u - prev)"
      have r': "0 < r'" using False by (simp add: r'_def)
      have sum: "u + r' = prev + r" by (simp add: r'_def)
      have above: "\<forall>t \<in> set rest. \<forall>b. up_to t = Some b \<longrightarrow> u < b"
        using Cons.prems(3) Some by auto
      have found': "find (tier_matches (u + r')) rest = Some tk"
        using found by (simp only: sum)
      have bounds_rest: "sorted_wrt (\<lambda>s t. case up_to s of None \<Rightarrow> False
                       | Some a \<Rightarrow> (case up_to t of None \<Rightarrow> True | Some b \<Rightarrow> a < b)) rest"
        using Cons.prems(3) by simp
      have prices_rest: "sorted_wrt (\<lambda>s t. price t < price s) rest"
        using Cons.prems(4) by simp
      have "r' * price tk \<le> graduated_loop rest 0 r' u"
        by (rule Cons.IH[OF found' r' bounds_rest prices_rest above])
      moreover have "(u - prev) * price tk \<le> (u - prev) * price tier"
        using u cheaper by (intro mult_left_mono) simp_all
      moreover have "r * price tk = (u - prev) * price tk + r' * price tk"
        by (simp add: r'_def algebra_simps)
      moreover have "graduated_loop (tier # rest) 0 r prev =
          price tier * (u - prev) + graduated_loop rest 0 r' u"
      proof -
        from False have "min r (u - prev) = u - prev" "max 0 (r - (u - prev)) = r'"
          by (simp_all add: r'_def)
        with u show ?thesis
          by (simp add: graduated_loop_band[OF r0 Some] del: graduated_loop.simps)
      qed
      ultimately show ?thesis by (simp add: mult.commute)
    qed
  qed
qed

lemma beyond_first_band_differ:
  assumes "tiers \<noteq> []" and "up_to (hd tiers) = Some b" and "0 < b" and "b < v"
    and "up_to (last tiers) = None"
    and "sorted_wrt (\<lambda>s t. case up_to s of None \<Rightarrow> False
                       | Some a \<Rightarrow> (case up_to t of None \<Rightarrow> True | Some b \<Rightarrow> a < b)) tiers"
    and "sorted_wrt (\<lambda>s t. price t < price s) tiers"
  shows "apply_graduated_tiers v tiers \<noteq> apply_tiers v tiers"
proof -
  from assms(1) obtain tier rest where tiers: "tiers = tier # rest" by (cases tiers) auto
  have first: "up_to tier = Some b" using assms(2) tiers by simp
  have v: "0 < v" using assms(3,4) by simp
  have "tier_matches v (last tiers)" using assms(5) by (rule tier_matches_None)
  moreover have "last tiers \<in> set tiers" using assms(1) by simp
  ultimately have "find (tier_matches v) tiers \<noteq> None" unfolding find_None_iff by blast
  then obtain tk where tk: "find (tier_matches v) tiers = Some tk" by blast
  with assms(4) tiers have found: "find (tier_matches v) rest = Some tk"
    by (simp add: tier_matches_Some[OF first] del: tier_matches.simps)
  then have "tk \<in> set rest" by (auto simp: find_Some_iff)
  with assms(7) tiers have cheaper: "price tk < price tier" by simp
  have step: "apply_tiers v tiers = Inr (v * price tk)"
    using v assms(1) tk by (simp add: apply_tiers_def apply_tiers_loop_find del: tier_matches.simps)
  have above: "\<forall>t \<in> set rest. \<forall>c. up_to t = Some c \<longrightarrow> b < c"
    using assms(6) first tiers by auto
  have found': "find (tier_matches (b + (v - b))) rest = Some tk"
    using found by simp
  have bounds_rest: "sorted_wrt (\<lambda>s t. case up_to s of None \<Rightarrow> False
                       | Some a \<Rightarrow> (case up_to t of None \<Rightarrow> True | Some b \<Rightarrow> a < b)) rest"
    using assms(6) tiers by simp
  have prices_rest: "sorted_wrt (\<lambda>s t. price t < price s) rest"
    using assms(7) tiers by simp
  have "0 < v - b" using assms(4) by simp
  then have "(v - b) * price tk \<le> graduated_loop rest 0 (v - b) b"
    by (rule graduated_loop_lower_bound[OF found' _ bounds_rest prices_rest above])
  moreover have "graduated_loop tiers 0 v 0 = price tier * b + graduated_loop rest 0 (v - b) b"
  proof -
    have "min v (b - 0) = b" "max 0 (v - (b - 0)) = v - b" using assms(4) by simp_all
    with assms(3) v show ?thesis
      unfolding tiers using graduated_loop_band[of v tier b rest 0] first
      by (simp del: graduated_loop.simps)
  qed
  moreover have "b * price tk < b * price tier"
    using assms(3) cheaper by simp
  moreover have "v * price tk = b * price tk + (v - b) * price tk"
    by (simp add: algebra_simps)
  ultimately have "v * price tk < graduated_loop tiers 0 v 0" by (simp add: mult.commute)
  moreover have "apply_graduated_tiers v tiers = Inr (graduated_loop tiers 0 v 0)"
    using v assms(1) by (simp add: apply_graduated_tiers_def)
  ultimately show ?thesis using step by simp
qed


text \<open>
  Claim C9, as stated: the graduated cost equals the step cost only when the volume is at
  most the first bound. On the schedule 1.00 up to 100, 3.00 up to 200, 2.00 beyond, a
  volume of 300 costs 600 under both models.
\<close>

theorem graduated_equals_step_counterexample:
  "up_to (hd [\<lparr>up_to = Some 100, price = 1\<rparr>, \<lparr>up_to = Some 200, price = 3\<rparr>,
              \<lparr>up_to = None, price = 2\<rparr>]) = Some 100
   \<and> (100 :: real) < 300
   \<and> apply_graduated_tiers 300 [\<lparr>up_to = Some 100, price = 1\<rparr>,
         \<lparr>up_to = Some 200, price = 3\<rparr>, \<lparr>up_to = None, price = 2\<rparr>] = Inr 600
   \<and> apply_tiers 300 [\<lparr>up_to = Some 100, price = 1\<rparr>,
         \<lparr>up_to = Some 200, price = 3\<rparr>, \<lparr>up_to = None, price = 2\<rparr>] = Inr 600"
  by (simp add: apply_graduated_tiers_def apply_tiers_def Let_def)

text \<open>
  Claim C9, amended. On a non-empty schedule the graduated cost is a continuous function
  of the volume on \<open>[0, \<infinity>)\<close>; at every tier bound its value is the limit from above,
  from the next band. It equals the step cost whenever the volume is at most the first
  tier's bound (or the first tier has none). On a schedule whose bounds are positive and
  strictly ascending, whose last tier alone is unbounded and whose prices strictly
  decrease, the two differ at every volume beyond the first bound.
\<close>

theorem graduated_tiers_continuous:
  assumes "tiers \<noteq> []"
  shows "continuous_on {0..} (\<lambda>v. projr (apply_graduated_tiers v tiers))
     \<and> (\<forall>v \<ge> 0. apply_graduated_tiers v tiers = Inr (projr (apply_graduated_tiers v tiers)))
     \<and> (\<forall>tier \<in> set tiers. \<forall>b. up_to tier = Some b \<and> 0 \<le> b \<longrightarrow>
           ((\<lambda>v. projr (apply_graduated_tiers v tiers))
              \<longlongrightarrow> projr (apply_graduated_tiers b tiers)) (at_right b))
     \<and> (\<forall>v. up_to (hd tiers) = None \<or> (\<exists>b. up_to (hd tiers) = Some b \<and> v \<le> b)
           \<longrightarrow> apply_graduated_tiers v tiers = apply_tiers v tiers)
     \<and> (\<forall>v b. up_to (hd tiers) = Some b \<and> 0 < b \<and> b < v
             \<and> up_to (last tiers) = None
             \<and> sorted_wrt (\<lambda>s t. case up_to s of None \<Rightarrow> False
                       | Some a \<Rightarrow> (case up_to t of None \<Rightarrow> True | Some c \<Rightarrow> a < c)) tiers
             \<and> sorted_wrt (\<lambda>s t. price t < price s) tiers
           \<longrightarrow> apply_graduated_tiers v tiers \<noteq> apply_tiers v tiers)"
proof (intro conjI allI impI ballI)
  show "continuous_on {0..} (\<lambda>v. projr (apply_graduated_tiers v tiers))"
    by (rule graduated_continuous[OF assms])
next
  fix v :: real
  assume "0 \<le> v"
  then show "apply_graduated_tiers v tiers = Inr (projr (apply_graduated_tiers v tiers))"
    by (simp add: graduated_cost_eq[OF assms])
next
  fix tier b
  assume "up_to tier = Some b \<and> 0 \<le> b"
  then show "((\<lambda>v. projr (apply_graduated_tiers v tiers))
              \<longlongrightarrow> projr (apply_graduated_tiers b tiers)) (at_right b)"
    by (intro graduated_limit_from_right[OF assms]) simp
next
  fix v
  assume "up_to (hd tiers) = None \<or> (\<exists>b. up_to (hd tiers) = Some b \<and> v \<le> b)"
  then show "apply_graduated_tiers v tiers = apply_tiers v tiers"
    by (rule first_band_equal[OF assms])
next
  fix v b
  assume "up_to (hd tiers) = Some b \<and> 0 < b \<and> b < v
             \<and> up_to (last tiers) = None
             \<and> sorted_wrt (\<lambda>s t. case up_to s of None \<Rightarrow> False
                       | Some a \<Rightarrow> (case up_to t of None \<Rightarrow> True | Some c \<Rightarrow> a < c)) tiers
             \<and> sorted_wrt (\<lambda>s t. price t < price s) tiers"
  then show "apply_graduated_tiers v tiers \<noteq> apply_tiers v tiers"
    using beyond_first_band_differ[OF assms, of b v] by blast
qed

theorem graduated_tiers_continuous_witness:
  "continuous_on {0..} (\<lambda>v. projr (apply_graduated_tiers v sample_tiers))
   \<and> ((\<lambda>v. projr (apply_graduated_tiers v sample_tiers))
        \<longlongrightarrow> projr (apply_graduated_tiers 7500 sample_tiers)) (at_right 7500)
   \<and> apply_graduated_tiers 7500 sample_tiers = Inr 7125
   \<and> apply_graduated_tiers 5000 sample_tiers = apply_tiers 5000 sample_tiers
   \<and> apply_graduated_tiers 10000 sample_tiers \<noteq> apply_tiers 10000 sample_tiers"
proof -
  have ne: "sample_tiers \<noteq> []" by (simp add: sample_tiers_def)
  note inst = graduated_tiers_continuous[OF ne]
  have cont: "continuous_on {0..} (\<lambda>v. projr (apply_graduated_tiers v sample_tiers))"
    using inst by blast
  have "\<lparr>up_to = Some 7500, price = 95 / 100\<rparr> \<in> set sample_tiers"
    by (simp add: sample_tiers_def)
  with inst have lim: "((\<lambda>v. projr (apply_graduated_tiers v sample_tiers))
        \<longlongrightarrow> projr (apply_graduated_tiers 7500 sample_tiers)) (at_right 7500)"
    by force
  have val: "apply_graduated_tiers 7500 sample_tiers = Inr 7125"
    by (simp add: apply_graduated_tiers_def sample_tiers_def Let_def)
  have "up_to (hd sample_tiers) = None
          \<or> (\<exists>b. up_to (hd sample_tiers) = Some b \<and> (5000::real) \<le> b)"
    by (simp add: sample_tiers_def)
  with inst have eq: "apply_graduated_tiers 5000 sample_tiers = apply_tiers 5000 sample_tiers"
    by blast
  have "up_to (hd sample_tiers) = Some 7500 \<and> (0::real) < 7500 \<and> (7500::real) < 10000
             \<and> up_to (last sample_tiers) = None
             \<and> sorted_wrt (\<lambda>s t. case up_to s of None \<Rightarrow> False
                       | Some a \<Rightarrow> (case up_to t of None \<Rightarrow> True | Some c \<Rightarrow> a < c)) sample_tiers
             \<and> sorted_wrt (\<lambda>s t. price t < price s) sample_tiers"
    by (simp add: sample_tiers_def)
  with inst have neq: "apply_graduated_tiers 10000 sample_tiers \<noteq> apply_tiers 10000 sample_tiers"
    by blast
  from cont lim val eq neq show ?thesis by simp
qed

section \<open>Properties of the simulation\<close>

subsection \<open>The monthly loop and the second pass\<close>

lemma ebind_eq_Inr: "ebind x f = Inr y \<longleftrightarrow> (\<exists>v. x = Inr v \<and> f v = Inr y)"
  by (cases x) simp_all


lemma simulate_month_Inr:
  assumes "simulate_month plan p oo fx m a c = Inr row"
  shows "month row = m"
    and "active_cards row = max 0 (a - a * p_churn_rate p + p_net_adds p)"
    and "cumulative_profit row = c + profit row"
    and "profit row = total_revenue row - costs_excl_b2b row"
    and "total_revenue row = rev_excl_b2b row + rev_b2b row"
    and "p_b2b_mode p \<noteq> ''given'' \<Longrightarrow> rev_b2b row = 0"
    and "p_b2b_mode p = ''given'' \<Longrightarrow> rev_b2b row = p_companies p * p_platform_fee_company_month p + active_cards row * p_employee_fee_month p"
    and "total_costs row = costs_excl_b2b row"
  using assms
  by (auto simp: simulate_month_def Let_def ebind_eq_Inr)

lemma simulate_loop_Cons_Inr:
  "simulate_loop plan p oo fx (m # ms) a c = Inr rs \<longleftrightarrow>
     (\<exists>row later. simulate_month plan p oo fx m a c = Inr row \<and>
        simulate_loop plan p oo fx ms (active_cards row) (cumulative_profit row) = Inr later \<and>
        rs = row # later)"
  by (auto split: sum.splits)

lemma simulate_loop_months:
  "simulate_loop plan p oo fx ms a c = Inr rs \<Longrightarrow> map month rs = ms"
proof (induction ms arbitrary: a c rs)
  case Nil
  then show ?case by simp
next
  case (Cons m ms)
  then show ?case
    unfolding simulate_loop_Cons_Inr by (auto simp: simulate_month_Inr(1))
qed

lemma simulate_loop_cumulative:
  "simulate_loop plan p oo fx ms a c = Inr rs \<Longrightarrow> i < length rs \<Longrightarrow>
     cumulative_profit (rs ! i) = c + sum_list (map profit (take (Suc i) rs))"
proof (induction ms arbitrary: a c rs i)
  case Nil
  then show ?case by simp
next
  case (Cons m ms)
  from Cons.prems(1) obtain row later where
    row: "simulate_month plan p oo fx m a c = Inr row"
    and later: "simulate_loop plan p oo fx ms (active_cards row) (cumulative_profit row) = Inr later"
    and rs: "rs = row # later"
    unfolding simulate_loop_Cons_Inr by blast
  show ?case
  proof (cases i)
    case 0
    then show ?thesis using rs simulate_month_Inr(3)[OF row] by simp
  next
    case (Suc k)
    with Cons.prems(2) rs have "k < length later" by simp
    from Cons.IH[OF later this] show ?thesis
      using rs Suc simulate_month_Inr(3)[OF row] by simp
  qed
qed

lemma simulate_loop_active:
  "simulate_loop plan p oo fx ms a c = Inr rs \<Longrightarrow> i < length rs \<Longrightarrow>
     active_cards (rs ! i) =
       (let active_prev = (if i = 0 then a else active_cards (rs ! (i - 1)));
            churned = active_prev * p_churn_rate p
        in max 0 (active_prev - churned + p_net_adds p))"
proof (induction ms arbitrary: a c rs i)
  case Nil
  then show ?case by simp
next
  case (Cons m ms)
  from Cons.prems(1) obtain row later where
    row: "simulate_month plan p oo fx m a c = Inr row"
    and later: "simulate_loop plan p oo fx ms (active_cards row) (cumulative_profit row) = Inr later"
    and rs: "rs = row # later"
    unfolding simulate_loop_Cons_Inr by blast
  show ?case
  proof (cases i)
    case 0
    then show ?thesis using rs simulate_month_Inr(2)[OF row] by (simp add: Let_def)
  next
    case (Suc k)
    with Cons.prems(2) rs have k: "k < length later" by simp
    from Cons.IH[OF later k] show ?thesis
      using rs Suc by (cases k) (simp_all add: Let_def)
  qed
qed

lemma reapply_fee_length: "length (reapply_fee cn pf fee c rs) = length rs"
  by (induction rs arbitrary: c) (simp_all add: Let_def)

lemma reapply_fee_nth:
  "i < length rs \<Longrightarrow>
   reapply_fee cn pf fee c rs ! i =
     (rs ! i)\<lparr>rev_b2b := cn * pf + active_cards (rs ! i) * fee,
              total_revenue := rev_excl_b2b (rs ! i) + (cn * pf + active_cards (rs ! i) * fee),
              profit := rev_excl_b2b (rs ! i) + (cn * pf + active_cards (rs ! i) * fee) - costs_excl_b2b (rs ! i),
              cumulative_profit := c + sum_list (map profit (take (Suc i) (reapply_fee cn pf fee c rs)))\<rparr>"
proof (induction rs arbitrary: c i)
  case Nil
  then show ?case by simp
next
  case (Cons r rs)
  show ?case
  proof (cases i)
    case 0
    then show ?thesis by (simp add: Let_def)
  next
    case (Suc k)
    with Cons.prems have "k < length rs" by simp
    from Cons.IH[OF this] show ?thesis using Suc by (simp add: Let_def algebra_simps)
  qed
qed

lemma apply_tiers_succeeds: "0 \<le> v \<Longrightarrow> tiers \<noteq> [] \<Longrightarrow> \<exists>c. apply_tiers v tiers = Inr c"
  by (simp add: apply_tiers_def split: option.split)

lemma simulate_month_succeeds:
  assumes "active_cards_tiers plan \<noteq> []" "authorizations_eea_tiers plan \<noteq> []"
    "authorizations_non_eea_tiers plan \<noteq> []" "three_ds_tiers plan \<noteq> []"
    and "0 \<le> p_spend_per_active p" "0 \<le> p_auth_multiplier p"
    and "0 \<le> p_eea_share p" "p_eea_share p \<le> 1"
    and "0 \<le> p_ecom_share p" "0 \<le> p_three_ds_attempt_rate p"
  shows "\<exists>row. simulate_month plan p oo fx m a c = Inr row"
proof -
  define active where "active = max 0 (a - a * p_churn_rate p + p_net_adds p)"
  define tx where "tx = (if p_avg_ticket p \<le> 0 then 0
      else (active * p_spend_per_active p / p_avg_ticket p) * p_auth_multiplier p)"
  have active: "0 \<le> active" by (simp add: active_def)
  have tx: "0 \<le> tx" using active assms(5,6) by (simp add: tx_def)
  have eea: "0 \<le> tx * p_eea_share p" using tx assms(7) by simp
  have "tx * p_eea_share p \<le> tx * 1" using tx assms(8) by (intro mult_left_mono) simp_all
  then have non_eea: "0 \<le> tx - tx * p_eea_share p" by simp
  have three_ds: "0 \<le> tx * p_ecom_share p * p_three_ds_attempt_rate p"
    using tx assms(9,10) by simp
  obtain c1 where c1: "apply_tiers active (active_cards_tiers plan) = Inr c1"
    using apply_tiers_succeeds[OF active assms(1)] by blast
  obtain c2 where c2: "apply_tiers (tx * p_eea_share p) (authorizations_eea_tiers plan) = Inr c2"
    using apply_tiers_succeeds[OF eea assms(2)] by blast
  obtain c3 where c3: "apply_tiers (tx - tx * p_eea_share p) (authorizations_non_eea_tiers plan) = Inr c3"
    using apply_tiers_succeeds[OF non_eea assms(3)] by blast
  obtain c4 where c4: "apply_tiers (tx * p_ecom_share p * p_three_ds_attempt_rate p) (three_ds_tiers plan) = Inr c4"
    using apply_tiers_succeeds[OF three_ds assms(4)] by blast
  show ?thesis
    using c1 c2 c3 c4 unfolding simulate_month_def Let_def active_def tx_def by simp
qed

lemma simulate_loop_succeeds:
  assumes "active_cards_tiers plan \<noteq> []" "authorizations_eea_tiers plan \<noteq> []"
    "authorizations_non_eea_tiers plan \<noteq> []" "three_ds_tiers plan \<noteq> []"
    and "0 \<le> p_spend_per_active p" "0 \<le> p_auth_multiplier p"
    and "0 \<le> p_eea_share p" "p_eea_share p \<le> 1"
    and "0 \<le> p_ecom_share p" "0 \<le> p_three_ds_attempt_rate p"
  shows "\<exists>rs. simulate_loop plan p oo fx ms a c = Inr rs"
proof (induction ms arbitrary: a c)
  case Nil
  then show ?case by simp
next
  case (Cons m ms)
  obtain row where row: "simulate_month plan p oo fx m a c = Inr row"
    using simulate_month_succeeds[OF assms] by blast
  obtain later where "simulate_loop plan p oo fx ms (active_cards row) (cumulative_profit row) = Inr later"
    using Cons.IH by blast
  with row show ?case by simp
qed

text \<open>The rows \<^verbatim>\<open>simulate\<close> returns, from the rows of the first pass.\<close>

lemma simulate_result:
  assumes "parse_scenario sc = Inr p" and "monthly_rows plan p = Inr rs0"
  shows "\<exists>res. simulate plan sc = Inr res
     \<and> rows res = (if p_b2b_mode p = ''solve_employee_fee''
         then reapply_fee (p_companies p) (p_platform_fee_company_month p)
                (solve_employee_fee rs0 (p_companies p) (p_platform_fee_company_month p)
                   (p_target_months p) (p_target_type p) (p_target p)) 0 rs0
         else rs0)
     \<and> required_employee_fee_month (kpis res) = (if p_b2b_mode p = ''solve_employee_fee''
         then Some (solve_employee_fee rs0 (p_companies p) (p_platform_fee_company_month p)
                   (p_target_months p) (p_target_type p) (p_target p))
         else None)
     \<and> breakeven_month (kpis res) = breakeven_loop False (rows res)
     \<and> profit_year1 (kpis res) = sum_list (map profit (take 12 (rows res)))"
  using assms by (simp add: simulate_def calculate_kpis_def Let_def)

lemma simulate_Inr_parse:
  "simulate plan sc = Inr res \<Longrightarrow> \<exists>p rs0. parse_scenario sc = Inr p \<and> monthly_rows plan p = Inr rs0"
  by (auto simp: simulate_def ebind_eq_Inr)

lemma monthly_rows_length:
  "monthly_rows plan p = Inr rs0 \<Longrightarrow> map month rs0 = [1 .. p_months p]"
  unfolding monthly_rows_def by (rule simulate_loop_months)


lemma parse_test_scenario:
  "parse_scenario (test_scenario start adds churn spend partner b2b_mode) =
     Inr \<lparr>p_months = 12, p_toggles = base_toggles, p_ops = empty_ops,
          p_start_active = start, p_net_adds = adds, p_churn_rate = churn,
          p_spend_per_active = spend, p_in_app_share = 1 / 2, p_avg_ticket = 50,
          p_ecom_share = 3 / 10, p_three_ds_attempt_rate = 1, p_eea_share = 95 / 100,
          p_auth_multiplier = 1, p_partner_fee_pct = partner, p_interchange_pct = 2 / 1000,
          p_companies = 1, p_platform_fee_company_month = 0, p_employee_fee_month = 0,
          p_b2b_mode = b2b_mode,
          p_target = \<lparr>target_type = Some ''breakeven'', target_months = Some 12,
                       target_amount = None\<rparr>,
          p_target_months = 12, p_target_type = ''breakeven'',
          p_physical_share = 0, p_issued_equals_net_adds = True\<rparr>"
  by (simp add: parse_scenario_def test_scenario_def require_def dict_get_def)

lemma simulate_test_scenario_succeeds:
  assumes "0 \<le> spend"
  shows "\<exists>rs0 res. monthly_rows sample_plan
            (projr (parse_scenario (test_scenario start adds churn spend partner b2b_mode))) = Inr rs0
          \<and> simulate sample_plan (test_scenario start adds churn spend partner b2b_mode) = Inr res"
proof -
  let ?p = "projr (parse_scenario (test_scenario start adds churn spend partner b2b_mode))"
  have p: "parse_scenario (test_scenario start adds churn spend partner b2b_mode) = Inr ?p"
    by (simp add: parse_test_scenario)
  have "\<exists>rs. simulate_loop sample_plan ?p oo fx ms a c = Inr rs" for oo fx ms a c
    by (rule simulate_loop_succeeds)
       (simp_all add: parse_test_scenario sample_plan_def sample_tiers_def assms)
  then obtain rs0 where rs0: "monthly_rows sample_plan ?p = Inr rs0"
    unfolding monthly_rows_def by blast
  from simulate_result[OF p rs0] rs0 show ?thesis by blast
qed

lemma parse_scenario_fields:
  assumes "parse_scenario sc = Inr p"
  shows "\<exists>ad us co bb.
           horizon_months sc = Some (p_months p)
         \<and> adoption sc = Some ad \<and> usage sc = Some us \<and> commercial sc = Some co
         \<and> b2b co = Some bb
         \<and> start_active_cards ad = Some (p_start_active p)
         \<and> p_net_adds p = dict_get (monthly_net_adds ad) 0
         \<and> p_churn_rate p = dict_get (churn_rate ad) 0
         \<and> spend_per_active_card_month us = Some (p_spend_per_active p)
         \<and> p_companies p = dict_get (companies bb) 1
         \<and> p_platform_fee_company_month p = dict_get (platform_fee_company_month bb) 0
         \<and> p_b2b_mode p = dict_get (mode bb) ''given''
         \<and> p_target p = dict_get (target bb) default_target
         \<and> p_target_months p = dict_get (target_months (p_target p)) 12
         \<and> p_target_type p = dict_get (target_type (p_target p)) ''breakeven''"
  using assms
  by (auto simp: parse_scenario_def ebind_eq_Inr require_def Let_def split: option.splits)

lemma reapply_fee_active_cards:
  "map active_cards (reapply_fee cn pf fee c rs) = map active_cards rs"
  by (induction rs arbitrary: c) (simp_all add: Let_def)

lemma reapply_fee_month:
  "map month (reapply_fee cn pf fee c rs) = map month rs"
  by (induction rs arbitrary: c) (simp_all add: Let_def)

lemma simulate_rows_unchanged:
  assumes "parse_scenario sc = Inr p" and "monthly_rows plan p = Inr rs0"
    and "simulate plan sc = Inr res"
  shows "map active_cards (rows res) = map active_cards rs0"
    and "map month (rows res) = [1 .. p_months p]"
    and "length (rows res) = length rs0" and "length rs0 = nat (p_months p)"
proof -
  from simulate_result[OF assms(1,2)] assms(3)
  have rows_res: "rows res = (if p_b2b_mode p = ''solve_employee_fee''
         then reapply_fee (p_companies p) (p_platform_fee_company_month p)
                (solve_employee_fee rs0 (p_companies p) (p_platform_fee_company_month p)
                   (p_target_months p) (p_target_type p) (p_target p)) 0 rs0
         else rs0)"
    by auto
  show "map active_cards (rows res) = map active_cards rs0"
    by (simp add: rows_res reapply_fee_active_cards)
  show m: "map month (rows res) = [1 .. p_months p]"
    by (simp add: rows_res reapply_fee_month monthly_rows_length[OF assms(2)])
  show "length (rows res) = length rs0"
    by (simp add: rows_res reapply_fee_length)
  have "length (map month rs0) = length [1 .. p_months p]"
    by (simp only: monthly_rows_length[OF assms(2)])
  then show "length rs0 = nat (p_months p)" by simp
qed


subsection \<open>Active cards\<close>

text \<open>
  Claim C1. The parsed \<open>p\<close> holds the scenario's starting cards, net adds (default 0) and
  churn rate (default 0). The rows are the months \<open>1\<close> to the horizon, and the active cards of each row
  come from those of the row before (the starting count for month 1) by
  \<open>churned = active_prev * churn_rate\<close>,
  \<open>active = max 0 (active_prev - churned + net_adds)\<close>, with the same \<open>net_adds\<close> every
  month. From 3000 cards, 100 net adds, no churn and a horizon of 12, month 1 has 3100
  active cards and month 12 has 4200.
\<close>

theorem active_cards_recurrence:
  assumes "parse_scenario sc = Inr p" and "simulate plan sc = Inr res"
  shows "(\<exists>ad. horizon_months sc = Some (p_months p) \<and> adoption sc = Some ad
            \<and> start_active_cards ad = Some (p_start_active p)
            \<and> p_net_adds p = dict_get (monthly_net_adds ad) 0
            \<and> p_churn_rate p = dict_get (churn_rate ad) 0)
       \<and> map month (rows res) = [1 .. p_months p]
       \<and> (\<forall>i < length (rows res).
            active_cards (rows res ! i) =
              (let active_prev = (if i = 0 then p_start_active p
                                  else active_cards (rows res ! (i - 1)));
                   churned = active_prev * p_churn_rate p
               in max 0 (active_prev - churned + p_net_adds p)))
       \<and> (p_start_active p = 3000 \<and> p_net_adds p = 100 \<and> p_churn_rate p = 0 \<and> p_months p = 12
            \<longrightarrow> active_cards (rows res ! 0) = 3100 \<and> active_cards (rows res ! 11) = 4200)"
proof -
  from simulate_Inr_parse[OF assms(2)] assms(1)
  obtain rs0 where rs0: "monthly_rows plan p = Inr rs0" by auto
  note same = simulate_rows_unchanged[OF assms(1) rs0 assms(2)]
  have nth_same: "active_cards (rows res ! i) = active_cards (rs0 ! i)" if "i < length rs0" for i
  proof -
    have "map active_cards (rows res) ! i = map active_cards rs0 ! i" by (simp only: same(1))
    then show ?thesis using that same(3) by simp
  qed
  have step: "active_cards (rows res ! i) =
              (let active_prev = (if i = 0 then p_start_active p
                                  else active_cards (rows res ! (i - 1)));
                   churned = active_prev * p_churn_rate p
               in max 0 (active_prev - churned + p_net_adds p))"
    if i: "i < length (rows res)" for i
  proof -
    from i same(3) have i0: "i < length rs0" by simp
    then have "i - 1 < length rs0" by simp
    then have prev: "active_cards (rows res ! (i - 1)) = active_cards (rs0 ! (i - 1))"
      by (rule nth_same)
    from simulate_loop_active[OF rs0[unfolded monthly_rows_def] i0]
    show ?thesis unfolding nth_same[OF i0] prev .
  qed
  have example: "active_cards (rows res ! 0) = 3100 \<and> active_cards (rows res ! 11) = 4200"
    if ex: "p_start_active p = 3000 \<and> p_net_adds p = 100 \<and> p_churn_rate p = 0 \<and> p_months p = 12"
  proof -
    from ex same(3,4) have len: "length (rows res) = 12" by simp
    have grow: "i < 12 \<Longrightarrow> active_cards (rows res ! i) = 3000 + 100 * real (Suc i)" for i
    proof (induction i)
      case 0
      then show ?case using step[of 0] len ex by (simp add: Let_def)
    next
      case (Suc i)
      then have "active_cards (rows res ! i) = 3000 + 100 * real (Suc i)" by simp
      moreover have "Suc i < length (rows res)" using Suc.prems len by simp
      ultimately show ?case using step[of "Suc i"] ex by (simp add: Let_def)
    qed
    from grow[of 0] grow[of 11] show ?thesis by simp
  qed
  have fields: "\<exists>ad. horizon_months sc = Some (p_months p) \<and> adoption sc = Some ad
            \<and> start_active_cards ad = Some (p_start_active p)
            \<and> p_net_adds p = dict_get (monthly_net_adds ad) 0
            \<and> p_churn_rate p = dict_get (churn_rate ad) 0"
    using parse_scenario_fields[OF assms(1)] by blast
  from fields same(2) step example show ?thesis by blast
qed

theorem active_cards_recurrence_witness:
  "\<not> isl (simulate sample_plan (test_scenario 3000 100 0 200 (2 / 100) ''given''))
   \<and> active_cards (rows (projr (simulate sample_plan
        (test_scenario 3000 100 0 200 (2 / 100) ''given''))) ! 0) = 3100
   \<and> active_cards (rows (projr (simulate sample_plan
        (test_scenario 3000 100 0 200 (2 / 100) ''given''))) ! 11) = 4200"
proof -
  let ?sc = "test_scenario 3000 100 0 200 (2 / 100) ''given''"
  obtain res where res: "simulate sample_plan ?sc = Inr res"
    using simulate_test_scenario_succeeds[of 200 3000 100 0 "2 / 100" "''given''"] by auto
  from active_cards_recurrence[OF parse_test_scenario res] res
  show ?thesis by simp
qed


subsection \<open>Cumulative profit\<close>

text \<open>
  Claim C5. In every row the cumulative profit is the sum of the profits of the rows up
  to and including it: in the rows of the monthly loop, and in the rows \<^verbatim>\<open>simulate\<close>
  returns, which the fee re-application pass has rewritten when the mode is
  \<^verbatim>\<open>solve_employee_fee\<close>.
\<close>

theorem cumulative_profit_running_sum:
  assumes "parse_scenario sc = Inr p"
    and "monthly_rows plan p = Inr rs0"
    and "simulate plan sc = Inr res"
  shows "(\<forall>i < length rs0.
            cumulative_profit (rs0 ! i) = sum_list (map profit (take (Suc i) rs0)))
       \<and> (\<forall>i < length (rows res).
            cumulative_profit (rows res ! i) = sum_list (map profit (take (Suc i) (rows res))))
       \<and> (p_b2b_mode p = ''solve_employee_fee'' \<longrightarrow>
            (\<exists>fee. required_employee_fee_month (kpis res) = Some fee
               \<and> rows res = reapply_fee (p_companies p) (p_platform_fee_company_month p)
                               fee 0 rs0))"
proof -
  have first: "cumulative_profit (rs0 ! i) = sum_list (map profit (take (Suc i) rs0))"
    if "i < length rs0" for i
    using simulate_loop_cumulative[OF assms(2)[unfolded monthly_rows_def] that] by simp
  from simulate_result[OF assms(1,2)] assms(3)
  have rows_res: "rows res = (if p_b2b_mode p = ''solve_employee_fee''
         then reapply_fee (p_companies p) (p_platform_fee_company_month p)
                (solve_employee_fee rs0 (p_companies p) (p_platform_fee_company_month p)
                   (p_target_months p) (p_target_type p) (p_target p)) 0 rs0
         else rs0)"
    and fee: "required_employee_fee_month (kpis res) = (if p_b2b_mode p = ''solve_employee_fee''
         then Some (solve_employee_fee rs0 (p_companies p) (p_platform_fee_company_month p)
                   (p_target_months p) (p_target_type p) (p_target p))
         else None)"
    by auto
  have second: "cumulative_profit (rows res ! i) = sum_list (map profit (take (Suc i) (rows res)))"
    if i: "i < length (rows res)" for i
  proof (cases "p_b2b_mode p = ''solve_employee_fee''")
    case True
    with i rows_res have "i < length rs0" by (simp add: reapply_fee_length)
    from reapply_fee_nth[OF this] show ?thesis using True rows_res by simp
  next
    case False
    with rows_res i first show ?thesis by simp
  qed
  from first second rows_res fee show ?thesis by simp
qed

theorem cumulative_profit_running_sum_witness:
  "\<not> isl (simulate sample_plan (test_scenario 3000 0 0 200 (1 / 100) ''solve_employee_fee''))
   \<and> cumulative_profit (rows (projr (simulate sample_plan
        (test_scenario 3000 0 0 200 (1 / 100) ''solve_employee_fee''))) ! 11)
     = sum_list (map profit (take 12 (rows (projr (simulate sample_plan
        (test_scenario 3000 0 0 200 (1 / 100) ''solve_employee_fee'')))))) "
proof -
  let ?sc = "test_scenario 3000 0 0 200 (1 / 100) ''solve_employee_fee''"
  obtain rs0 res where rs0: "monthly_rows sample_plan (projr (parse_scenario ?sc)) = Inr rs0"
    and res: "simulate sample_plan ?sc = Inr res"
    using simulate_test_scenario_succeeds[of 200 3000 0 0 "1 / 100" "''solve_employee_fee''"] by auto
  have p: "parse_scenario ?sc = Inr (projr (parse_scenario ?sc))"
    by (simp add: parse_test_scenario)
  have "length (rows res) = 12"
    using simulate_rows_unchanged(3,4)[OF p rs0 res] by (simp add: parse_test_scenario)
  with cumulative_profit_running_sum[OF p rs0 res] res show ?thesis by simp
qed

subsection \<open>Breakeven month\<close>

lemma breakeven_loop_Some:
  "breakeven_loop w rs = Some m \<longleftrightarrow>
     (\<exists>j < length rs. month (rs ! j) = m \<and> 0 \<le> cumulative_profit (rs ! j)
        \<and> (w \<or> (\<exists>i < j. cumulative_profit (rs ! i) < - (1 / 100)))
        \<and> (\<forall>k < j. \<not> (0 \<le> cumulative_profit (rs ! k)
                \<and> (w \<or> (\<exists>i < k. cumulative_profit (rs ! i) < - (1 / 100))))))"
proof (induction rs arbitrary: w)
  case Nil
  then show ?case by simp
next
  case (Cons r rest)
  consider (neg) "cumulative_profit r < - (1 / 100)"
    | (hit) "\<not> cumulative_profit r < - (1 / 100)" "w \<and> 0 \<le> cumulative_profit r"
    | (skip) "\<not> cumulative_profit r < - (1 / 100)" "\<not> (w \<and> 0 \<le> cumulative_profit r)"
    by blast
  then show ?case
  proof cases
    case neg
    then have "\<not> 0 \<le> cumulative_profit r" by simp
    with neg show ?thesis
      by (simp add: Cons.IH[of True] Ex_less_Suc2 All_less_Suc2)
  next
    case hit
    have "(\<exists>j < length (r # rest). month ((r # rest) ! j) = m \<and> 0 \<le> cumulative_profit ((r # rest) ! j)
        \<and> (w \<or> (\<exists>i < j. cumulative_profit ((r # rest) ! i) < - (1 / 100)))
        \<and> (\<forall>k < j. \<not> (0 \<le> cumulative_profit ((r # rest) ! k)
                \<and> (w \<or> (\<exists>i < k. cumulative_profit ((r # rest) ! i) < - (1 / 100))))))
       \<longleftrightarrow> month r = m" (is "?R \<longleftrightarrow> _")
    proof
      assume ?R
      then obtain j where j: "month ((r # rest) ! j) = m"
        and least: "\<forall>k < j. \<not> (0 \<le> cumulative_profit ((r # rest) ! k)
                \<and> (w \<or> (\<exists>i < k. cumulative_profit ((r # rest) ! i) < - (1 / 100))))"
        by blast
      have "j = 0"
      proof (rule ccontr)
        assume "j \<noteq> 0"
        then have "0 < j" by simp
        with least hit(2) show False by auto
      qed
      with j show "month r = m" by simp
    next
      assume "month r = m"
      with hit(2) show ?R by (intro exI[of _ 0]) simp
    qed
    with hit show ?thesis by auto
  next
    case skip
    then show ?thesis
      by (simp add: Cons.IH[of w] Ex_less_Suc2 All_less_Suc2) blast
  qed
qed

lemma breakeven_loop_never_negative:
  "\<forall>r \<in> set rs. - (1 / 100) \<le> cumulative_profit r \<Longrightarrow> breakeven_loop False rs = None"
  by (induction rs) simp_all

text \<open>
  Claim C6. The breakeven month is the month of the first row whose cumulative profit is
  non-negative after some earlier row's was below \<open>-0.01\<close>; when no row's cumulative
  profit is below \<open>-0.01\<close> there is no breakeven month, however profitable the months.
\<close>

theorem breakeven_month_first_crossing:
  "(breakeven_month (calculate_kpis rs months fee) = Some m \<longleftrightarrow>
      (\<exists>j < length rs. month (rs ! j) = m
         \<and> 0 \<le> cumulative_profit (rs ! j)
         \<and> (\<exists>i < j. cumulative_profit (rs ! i) < - (1 / 100))
         \<and> (\<forall>k < j. \<not> (0 \<le> cumulative_profit (rs ! k)
                        \<and> (\<exists>i < k. cumulative_profit (rs ! i) < - (1 / 100))))))
   \<and> ((\<forall>r \<in> set rs. - (1 / 100) \<le> cumulative_profit r)
         \<longrightarrow> breakeven_month (calculate_kpis rs months fee) = None)"
  using breakeven_loop_Some[of False rs m] breakeven_loop_never_negative[of rs]
  by (simp add: calculate_kpis_def Let_def)

theorem breakeven_month_first_crossing_witness:
  "breakeven_month (calculate_kpis
      [sample_row 1 (- 100) (- 100), sample_row 2 50 (- 50), sample_row 3 70 20,
       sample_row 4 10 30] 4 None) = Some 3
   \<and> breakeven_month (calculate_kpis
      [sample_row 1 10 10, sample_row 2 10 20, sample_row 3 10 30] 3 None) = None"
proof -
  let ?rs = "[sample_row 1 (- 100) (- 100), sample_row 2 50 (- 50), sample_row 3 70 20,
       sample_row 4 10 30]"
  have "\<exists>j < length ?rs. month (?rs ! j) = 3
         \<and> 0 \<le> cumulative_profit (?rs ! j)
         \<and> (\<exists>i < j. cumulative_profit (?rs ! i) < - (1 / 100))
         \<and> (\<forall>k < j. \<not> (0 \<le> cumulative_profit (?rs ! k)
                        \<and> (\<exists>i < k. cumulative_profit (?rs ! i) < - (1 / 100))))"
    by (rule exI[of _ 2])
       (simp add: sample_row_def numeral_2_eq_2 Ex_less_Suc All_less_Suc)
  then have first: "breakeven_month (calculate_kpis ?rs 4 None) = Some 3"
    using breakeven_month_first_crossing[of ?rs 4 None 3] by blast
  have second: "breakeven_month (calculate_kpis
      [sample_row 1 10 10, sample_row 2 10 20, sample_row 3 10 30] 3 None) = None"
    using breakeven_month_first_crossing[of
        "[sample_row 1 10 10, sample_row 2 10 20, sample_row 3 10 30]" 3 None 0]
    by (simp add: sample_row_def)
  from first second show ?thesis by simp
qed

subsection \<open>Evaluating the sample plan; windows of rows\<close>

lemma sample_plan_tiers:
  "active_cards_tiers sample_plan = sample_tiers"
  "authorizations_eea_tiers sample_plan = [\<lparr>up_to = None, price = 13 / 100\<rparr>]"
  "authorizations_non_eea_tiers sample_plan = [\<lparr>up_to = None, price = 20 / 100\<rparr>]"
  "three_ds_tiers sample_plan = [\<lparr>up_to = None, price = 5 / 100\<rparr>]"
  by (simp_all add: sample_plan_def)

lemma sample_fixed_monthly: "compute_fixed_monthly sample_plan base_toggles = 2495"
  by (simp add: compute_fixed_monthly_def sample_plan_def base_toggles_def feature_on_def dict_get_def)

lemma sample_one_offs: "compute_one_offs sample_plan n base_toggles = Map.empty"
  by (simp add: compute_one_offs_def sample_plan_def base_toggles_def feature_on_def dict_get_def)

lemma sample_event_costs:
  "compute_event_costs sample_plan base_toggles empty_ops issued phys tx active churned
     = issued * (3 / 10)"
  by (simp add: compute_event_costs_def event_fees_map_def is_enabled_def event_term_def
      sample_plan_def base_toggles_def dict_get_def empty_ops_def Let_def)

lemma sample_physical_costs: "compute_physical_costs sample_plan base_toggles phys = 0"
  by (simp add: compute_physical_costs_def base_toggles_def dict_get_def Let_def)

lemma ebind_weak_cong: "x = y \<Longrightarrow> ebind x f = ebind y f"
  by simp

text \<open>The facts that evaluate \<^verbatim>\<open>simulate\<close> on the sample plan and a test scenario.\<close>

lemmas sample_eval = parse_test_scenario simulate_def monthly_rows_def simulate_month_def
  sample_plan_tiers sample_fixed_monthly sample_one_offs sample_event_costs sample_physical_costs
  apply_tiers_def sample_tiers_def solve_employee_fee_def py_prefix_def calculate_kpis_def
  dict_get_def Let_def upto.simps

lemma py_prefix_map: "map f (py_prefix n xs) = py_prefix n (map f xs)"
  by (simp add: py_prefix_def take_map)

lemma py_prefix_upto:
  assumes "0 \<le> h" and "h \<le> max 0 m"
  shows "py_prefix h [1 .. m] = [1 .. h]"
proof (rule nth_equalityI)
  show len: "length (py_prefix h [1 .. m]) = length [1 .. h]"
    using assms by (simp add: py_prefix_def)
  fix i
  assume "i < length (py_prefix h [1 .. m])"
  with len assms have "int i < h" and "int i < m" by (simp_all add: py_prefix_def)
  then show "py_prefix h [1 .. m] ! i = [1 .. h] ! i"
    using assms by (simp add: py_prefix_def)
qed

lemma reapply_fee_costs_excl:
  "map costs_excl_b2b (reapply_fee cn pf fee c rs) = map costs_excl_b2b rs"
  by (induction rs arbitrary: c) (simp_all add: Let_def)

lemma reapply_fee_rev_excl:
  "map rev_excl_b2b (reapply_fee cn pf fee c rs) = map rev_excl_b2b rs"
  by (induction rs arbitrary: c) (simp_all add: Let_def)





subsection \<open>The solved employee fee\<close>

text \<open>
  Claim C3. In mode \<^verbatim>\<open>solve_employee_fee\<close>, once the monthly loop has produced its rows,
  \<^verbatim>\<open>simulate\<close> returns, and the fee it reports is
  \<open>max 0 (((\<Sum>costs - \<Sum>rev) + target_profit - companies * platform_fee * horizon) / \<Sum>active)\<close>,
  or \<open>0\<close> when \<open>\<Sum>active \<le> 0\<close>. Here \<open>horizon\<close> is the smaller of the target months and
  the number of rows, the sums run over the slice \<^verbatim>\<open>rows[:horizon]\<close> (the months \<open>1\<close> to
  \<open>horizon\<close> when the target months are not negative), and the target profit is \<open>0\<close> for
  breakeven, the amount for profit, the amount times \<open>\<Sum>rev\<close> for margin.
\<close>

theorem solved_employee_fee_formula:
  assumes "parse_scenario sc = Inr p"
    and "monthly_rows plan p = Inr rs0"
    and "p_b2b_mode p = ''solve_employee_fee''"
  shows "\<exists>res fee. simulate plan sc = Inr res
      \<and> required_employee_fee_month (kpis res) = Some fee
      \<and> (let horizon = min (p_target_months p) (int (length (rows res)));
              window = py_prefix horizon (rows res);
              sum_costs = sum_list (map costs_excl_b2b window);
              sum_rev = sum_list (map rev_excl_b2b window);
              sum_active = sum_list (map active_cards window);
              amount = dict_get (target_amount (p_target p)) 0
          in (0 \<le> p_target_months p \<longrightarrow> map month window = [1 .. horizon])
           \<and> (sum_active \<le> 0 \<longrightarrow> fee = 0)
           \<and> (\<forall>target_profit.
                 (p_target_type p = ''breakeven'' \<and> target_profit = 0
                  \<or> p_target_type p = ''profit'' \<and> target_profit = amount
                  \<or> p_target_type p = ''margin'' \<and> target_profit = amount * sum_rev)
                 \<and> 0 < sum_active
                 \<longrightarrow> fee = max 0 (((sum_costs - sum_rev) + target_profit
                                      - p_companies p * p_platform_fee_company_month p
                                          * real_of_int horizon) / sum_active)))"
proof -
  define fee where "fee = solve_employee_fee rs0 (p_companies p)
      (p_platform_fee_company_month p) (p_target_months p) (p_target_type p) (p_target p)"
  from simulate_result[OF assms(1,2)] assms(3) obtain res where
    res: "simulate plan sc = Inr res"
    and rows_res: "rows res = reapply_fee (p_companies p) (p_platform_fee_company_month p) fee 0 rs0"
    and fee_res: "required_employee_fee_month (kpis res) = Some fee"
    unfolding fee_def by auto
  define horizon where "horizon = min (p_target_months p) (int (length (rows res)))"
  have len: "length (rows res) = length rs0" by (simp add: rows_res reapply_fee_length)
  have costs: "map costs_excl_b2b (py_prefix h (rows res)) = map costs_excl_b2b (py_prefix h rs0)" for h
    by (simp add: py_prefix_map rows_res reapply_fee_costs_excl)
  have rev: "map rev_excl_b2b (py_prefix h (rows res)) = map rev_excl_b2b (py_prefix h rs0)" for h
    by (simp add: py_prefix_map rows_res reapply_fee_rev_excl)
  have active: "map active_cards (py_prefix h (rows res)) = map active_cards (py_prefix h rs0)" for h
    by (simp add: py_prefix_map rows_res reapply_fee_active_cards)
  have months: "map month (py_prefix horizon (rows res)) = [1 .. horizon]" if "0 \<le> p_target_months p"
  proof -
    note same = simulate_rows_unchanged[OF assms(1,2) res]
    have "0 \<le> horizon" using that by (simp add: horizon_def)
    moreover have "horizon \<le> max 0 (p_months p)"
      using same(3,4) by (simp add: horizon_def)
    ultimately show ?thesis
      by (simp add: py_prefix_map same(2) py_prefix_upto)
  qed
  have hor: "horizon = min (p_target_months p) (int (length rs0))"
    by (simp add: horizon_def len)
  have degenerate: "fee = 0" if "sum_list (map active_cards (py_prefix horizon (rows res))) \<le> 0"
    using that unfolding active fee_def solve_employee_fee_def Let_def hor by simp
  have formula: "fee = max 0 (((sum_list (map costs_excl_b2b (py_prefix horizon (rows res)))
                    - sum_list (map rev_excl_b2b (py_prefix horizon (rows res)))) + target_profit
                    - p_companies p * p_platform_fee_company_month p * real_of_int horizon)
                   / sum_list (map active_cards (py_prefix horizon (rows res))))"
    if "p_target_type p = ''breakeven'' \<and> target_profit = 0
        \<or> p_target_type p = ''profit'' \<and> target_profit = dict_get (target_amount (p_target p)) 0
        \<or> p_target_type p = ''margin'' \<and> target_profit = dict_get (target_amount (p_target p)) 0
              * sum_list (map rev_excl_b2b (py_prefix horizon (rows res)))"
      and "0 < sum_list (map active_cards (py_prefix horizon (rows res)))"
    for target_profit
    using that unfolding active costs rev fee_def solve_employee_fee_def Let_def hor
    by (auto simp: mult.commute)
  show ?thesis
    using res fee_res months degenerate formula
    unfolding Let_def horizon_def by blast
qed

theorem solved_employee_fee_formula_witness:
  "map_sum id (required_employee_fee_month \<circ> kpis)
     (simulate sample_plan (test_scenario 3000 0 0 200 (1 / 100) ''solve_employee_fee''))
     = Inr (Some (2927 / 3000))
   \<and> map_sum id (required_employee_fee_month \<circ> kpis)
     (simulate sample_plan (test_scenario 0 0 0 200 (1 / 100) ''solve_employee_fee''))
     = Inr (Some 0)"
proof -
  let ?sc = "test_scenario 3000 0 0 200 (1 / 100) ''solve_employee_fee''"
  let ?sz = "test_scenario 0 0 0 200 (1 / 100) ''solve_employee_fee''"
  have p: "parse_scenario ?sc = Inr (projr (parse_scenario ?sc))"
    and pz: "parse_scenario ?sz = Inr (projr (parse_scenario ?sz))"
    by (simp_all add: parse_test_scenario)
  have mode: "p_b2b_mode (projr (parse_scenario ?sc)) = ''solve_employee_fee''"
    and modez: "p_b2b_mode (projr (parse_scenario ?sz)) = ''solve_employee_fee''"
    by (simp_all add: parse_test_scenario)
  obtain rs0 where rs0: "monthly_rows sample_plan (projr (parse_scenario ?sc)) = Inr rs0"
    using simulate_test_scenario_succeeds[of 200 3000 0 0 "1 / 100" "''solve_employee_fee''"] by auto
  obtain rz where rz: "monthly_rows sample_plan (projr (parse_scenario ?sz)) = Inr rz"
    using simulate_test_scenario_succeeds[of 200 0 0 0 "1 / 100" "''solve_employee_fee''"] by auto
  have first: "map_sum id (required_employee_fee_month \<circ> kpis) (simulate sample_plan ?sc)
                 = Inr (Some (2927 / 3000))"
    using solved_employee_fee_formula[OF p rs0 mode]
    by (simp add: sample_eval cong: let_weak_cong ebind_weak_cong)
  have second: "map_sum id (required_employee_fee_month \<circ> kpis) (simulate sample_plan ?sz)
                 = Inr (Some 0)"
    using solved_employee_fee_formula[OF pz rz modez]
    by (simp add: sample_eval cong: let_weak_cong ebind_weak_cong)
  from first second show ?thesis by simp
qed


subsection \<open>Re-applying the solved fee\<close>




subsection \<open>Failures of the simulation\<close>
































end
